theory Spec2Isabelle
  imports Complex_Main
begin

section \<open>Data model (src/storage.ts, core interfaces)\<close>

text \<open>
  An embedding is a \<open>number[]\<close>. Its components are never computed with here: the
  embedding model and the similarity score are collaborators, taken as parameters below.
\<close>

type_synonym vec = "real list"

record MemoryMetadata =
  userId :: string
  timestamp :: int

text \<open>
  \<open>interface Memory\<close>. The field \<open>id\<close> is called \<open>memory_id\<close> (\<open>id\<close> is the identity
  function of HOL); \<open>vector?\<close> is optional.
\<close>

record Memory =
  memory_id :: string
  content :: string
  metadata :: MemoryMetadata
  vector :: "vec option"
  createdAt :: int
  updatedAt :: int

text \<open>\<open>interface MemorySearchParams\<close>: every field but \<open>userId\<close> is optional.\<close>

record MemorySearchParams =
  sp_userId :: string
  sp_query :: "string option"
  sp_vector :: "vec option"
  sp_limit :: "nat option"
  sp_threshold :: "real option"

text \<open>
  The argument of \<open>addMemory\<close>, \<open>Omit<Memory, 'id' | 'createdAt' | 'updatedAt'>\<close>, and the
  two fields of \<open>Partial<Memory>\<close> that \<open>updateMemory\<close> reads.
\<close>

record NewMemory =
  n_vector :: "vec option"
  n_content :: string
  n_metadata :: MemoryMetadata

record MemoryUpdates =
  u_content :: "string option"
  u_metadata :: "MemoryMetadata option"

text \<open>\<open>type MemoryAction\<close> (the second source file, AgenticMemory).\<close>

datatype action_type = ADD | UPDATE | DELETE | UNCHANGED

record MemoryAction =
  a_type :: action_type
  a_id :: "string option"
  a_text :: string
  a_oldFact :: "string option"

text \<open>
  JavaScript truthiness of an optional string, as tested by \<open>if (updates.content)\<close> and
  \<open>if (action.id)\<close>: \<open>undefined\<close> and the empty string are both falsy.
\<close>

fun truthy :: "string option \<Rightarrow> bool" where
  "truthy None = False"
| "truthy (Some s) = (s \<noteq> [])"


section \<open>The vector database as the client sees it\<close>

text \<open>
  A point of the collection has an identifier, a vector and a payload. The payload is the
  JSON object written by \<open>addMemory\<close> (keys \<open>content\<close>, \<open>metadata\<close>, \<open>createdAt\<close>,
  \<open>updatedAt\<close>); \<open>updateMemory\<close> additionally writes a payload key named \<open>vector\<close>, which
  is \<open>p_vector\<close> here and is a different thing from the point's own vector \<open>pt_vector\<close>,
  the one similarity search compares.
\<close>

record payload =
  p_content :: string
  p_metadata :: MemoryMetadata
  p_createdAt :: int
  p_updatedAt :: int
  p_vector :: "vec option"

record point =
  pt_id :: string
  pt_vector :: vec
  pt_payload :: payload

text \<open>The object \<open>payload\<close> that \<open>updateMemory\<close> builds and hands to \<open>setPayload\<close>.\<close>

record payload_patch =
  pp_updatedAt :: int
  pp_content :: "string option"
  pp_vector :: "vec option"
  pp_metadata :: "MemoryMetadata option"

text \<open>The requests that the storage layer sends to the client, in the order sent.\<close>

datatype request =
    Upsert point
  | SetPayload string payload_patch
  | DeletePoints string
  | DeleteFilter string
  | Retrieve string
  | Search string vec nat real
  | Scroll string int int nat

text \<open>
  \<open>upsert\<close> replaces the point that has the identifier, or inserts a new one.
\<close>

definition qdrant_upsert :: "point \<Rightarrow> point list \<Rightarrow> point list" where
  "qdrant_upsert p pts =
     (if pt_id p \<in> set (map pt_id pts)
      then map (\<lambda>q. if pt_id q = pt_id p then p else q) pts
      else pts @ [p])"

text \<open>
  \<open>setPayload\<close> merges the given keys into the payload of the named point and leaves its
  vector alone.
\<close>

definition merge_payload :: "payload_patch \<Rightarrow> payload \<Rightarrow> payload" where
  "merge_payload pp pl =
     pl\<lparr> p_updatedAt := pp_updatedAt pp,
         p_content := (case pp_content pp of None \<Rightarrow> p_content pl | Some c \<Rightarrow> c),
         p_vector := (case pp_vector pp of None \<Rightarrow> p_vector pl | Some v \<Rightarrow> Some v),
         p_metadata := (case pp_metadata pp of None \<Rightarrow> p_metadata pl | Some m \<Rightarrow> m) \<rparr>"

definition qdrant_setPayload :: "string \<Rightarrow> payload_patch \<Rightarrow> point list \<Rightarrow> point list" where
  "qdrant_setPayload i pp pts =
     map (\<lambda>q. if pt_id q = i then q\<lparr>pt_payload := merge_payload pp (pt_payload q)\<rparr> else q) pts"

definition qdrant_delete :: "string \<Rightarrow> point list \<Rightarrow> point list" where
  "qdrant_delete i pts = filter (\<lambda>q. pt_id q \<noteq> i) pts"

text \<open>The filter \<open>must: [{key: 'metadata.userId', match: {value: userId}}]\<close>.\<close>

definition owned_by :: "string \<Rightarrow> point \<Rightarrow> bool" where
  "owned_by uid q = (userId (p_metadata (pt_payload q)) = uid)"

definition qdrant_delete_filter :: "string \<Rightarrow> point list \<Rightarrow> point list" where
  "qdrant_delete_filter uid pts = filter (\<lambda>q. \<not> owned_by uid q) pts"

definition qdrant_retrieve :: "string \<Rightarrow> point list \<Rightarrow> point list" where
  "qdrant_retrieve i pts = filter (\<lambda>q. pt_id q = i) pts"

text \<open>
  \<open>search\<close>: the points that pass the filter and whose score against the query vector
  reaches \<open>score_threshold\<close>, best score first, at most \<open>limit\<close> of them. The score
  (cosine similarity, a floating-point computation of the database) is the parameter
  \<open>sim\<close>.
\<close>

definition qdrant_search ::
  "(vec \<Rightarrow> vec \<Rightarrow> real) \<Rightarrow> string \<Rightarrow> vec \<Rightarrow> nat \<Rightarrow> real \<Rightarrow> point list \<Rightarrow> point list" where
  "qdrant_search sim uid v lmt thr pts =
     take lmt (sort_key (\<lambda>q. - sim v (pt_vector q))
       (filter (\<lambda>q. owned_by uid q \<and> thr \<le> sim v (pt_vector q)) pts))"

text \<open>
  \<open>scroll\<close> with the user filter and the range \<open>gte: startDate, lte: endDate\<close> on
  \<open>metadata.timestamp\<close>, at most \<open>limit\<close> points.
\<close>

definition qdrant_scroll :: "string \<Rightarrow> int \<Rightarrow> int \<Rightarrow> nat \<Rightarrow> point list \<Rightarrow> point list" where
  "qdrant_scroll uid s e lmt pts =
     take lmt (filter (\<lambda>q. owned_by uid q
                 \<and> s \<le> timestamp (p_metadata (pt_payload q))
                 \<and> timestamp (p_metadata (pt_payload q)) \<le> e) pts)"


section \<open>Collaborators and the state of the world\<close>

text \<open>
  What the code cannot decide is a parameter: the embedding model (deterministic in its
  text, but any call may be rejected), the similarity score, whether the n-th request to
  the database is rejected, the readings of \<open>Date.now()\<close>, the values of
  \<open>crypto.randomUUID()\<close>, and the two structured answers of the language model
  (\<open>None\<close> when \<open>generateObject\<close> rejects).
\<close>

record env =
  embed_model :: "string \<Rightarrow> vec"
  embed_fails :: "nat \<Rightarrow> bool"
  similarity :: "vec \<Rightarrow> vec \<Rightarrow> real"
  qdrant_fails :: "nat \<Rightarrow> bool"
  date_now :: "nat \<Rightarrow> int"
  random_uuid :: "nat \<Rightarrow> string"
  llm_facts :: "string \<Rightarrow> string list option"
  llm_actions :: "(string \<times> string) list \<Rightarrow> string list \<Rightarrow> MemoryAction list option"

text \<open>
  The world: the collection, the requests sent to the database so far, the texts sent
  to the embedding model so far, and how many times the clock and the identifier
  generator have been read.
\<close>

record world =
  points :: "point list"
  qdrant_log :: "request list"
  embed_log :: "string list"
  clock_reads :: nat
  uuids_drawn :: nat

text \<open>
  Errors. \<open>Failed msg e\<close> is \<open>new Error(`msg: ${e}`)\<close>, thrown by the \<open>catch\<close> blocks of
  the storage layer around the error \<open>e\<close> they caught.
\<close>

datatype error =
    QdrantError
  | OpenAIError
  | VectorOrQueryRequired
  | Failed string error

type_synonym 'a result = "(error + 'a) \<times> world"

text \<open>
  One request to the database: it is logged, and it is rejected when the environment
  says so. A rejected request changes nothing in the collection.
\<close>

definition request_ok :: "env \<Rightarrow> world \<Rightarrow> bool" where
  "request_ok env w = (\<not> qdrant_fails env (length (qdrant_log w)))"

definition sent :: "request \<Rightarrow> world \<Rightarrow> world" where
  "sent r w = w\<lparr>qdrant_log := qdrant_log w @ [r]\<rparr>"

definition Date_now :: "env \<Rightarrow> world \<Rightarrow> int \<times> world" where
  "Date_now env w = (date_now env (clock_reads w), w\<lparr>clock_reads := Suc (clock_reads w)\<rparr>)"

definition randomUUID :: "env \<Rightarrow> world \<Rightarrow> string \<times> world" where
  "randomUUID env w = (random_uuid env (uuids_drawn w), w\<lparr>uuids_drawn := Suc (uuids_drawn w)\<rparr>)"


section \<open>MemoryStorage (src/storage.ts)\<close>

text \<open>\<open>embedQuery\<close>: one call of the embedding model; its failure is rethrown wrapped.\<close>

definition embedQuery :: "env \<Rightarrow> string \<Rightarrow> world \<Rightarrow> vec result" where
  "embedQuery env q w =
     (let w' = w\<lparr>embed_log := embed_log w @ [q]\<rparr> in
      if embed_fails env (length (embed_log w))
      then (Inl (Failed ''Failed to generate embedding'' OpenAIError), w')
      else (Inr (embed_model env q), w'))"

text \<open>
  \<open>addMemory\<close>: a fresh identifier, the time, the given vector or else a new embedding of
  the content, then one \<open>upsert\<close>. Every failure is rethrown as \<open>Failed to add memory\<close>.
\<close>

definition addMemory :: "env \<Rightarrow> NewMemory \<Rightarrow> world \<Rightarrow> string result" where
  "addMemory env memory w =
     (let (i, w1) = randomUUID env w;
          (now, w2) = Date_now env w1 in
      case (case n_vector memory of
              Some v \<Rightarrow> (Inr v, w2)
            | None \<Rightarrow> embedQuery env (n_content memory) w2) of
        (Inl e, w3) \<Rightarrow> (Inl (Failed ''Failed to add memory'' e), w3)
      | (Inr v, w3) \<Rightarrow>
          (let p = \<lparr> pt_id = i, pt_vector = v,
                     pt_payload = \<lparr> p_content = n_content memory,
                                     p_metadata = n_metadata memory,
                                     p_createdAt = now, p_updatedAt = now,
                                     p_vector = None \<rparr> \<rparr>;
               w4 = sent (Upsert p) w3 in
           if request_ok env w3
           then (Inr i, w4\<lparr>points := qdrant_upsert p (points w3)\<rparr>)
           else (Inl (Failed ''Failed to add memory'' QdrantError), w4)))"

text \<open>
  \<open>updateMemory\<close>: the payload object gets \<open>updatedAt\<close>, and, when the content is truthy,
  \<open>content\<close> and \<open>vector\<close> (a new embedding), and \<open>metadata\<close> when given; then one
  \<open>setPayload\<close> on the point.
\<close>

definition updateMemory :: "env \<Rightarrow> string \<Rightarrow> MemoryUpdates \<Rightarrow> world \<Rightarrow> unit result" where
  "updateMemory env i updates w =
     (let (now, w1) = Date_now env w;
          pp0 = \<lparr> pp_updatedAt = now, pp_content = None, pp_vector = None,
                  pp_metadata = None \<rparr> in
      case (if truthy (u_content updates)
            then (case embedQuery env (the (u_content updates)) w1 of
                    (Inl e, w2) \<Rightarrow> (Inl e, w2)
                  | (Inr v, w2) \<Rightarrow>
                      (Inr (pp0\<lparr>pp_content := u_content updates, pp_vector := Some v\<rparr>), w2))
            else (Inr pp0, w1)) of
        (Inl e, w2) \<Rightarrow> (Inl (Failed ''Failed to update memory'' e), w2)
      | (Inr pp1, w2) \<Rightarrow>
          (let pp = (case u_metadata updates of
                       None \<Rightarrow> pp1
                     | Some m \<Rightarrow> pp1\<lparr>pp_metadata := Some m\<rparr>);
               w3 = sent (SetPayload i pp) w2 in
           if request_ok env w2
           then (Inr (), w3\<lparr>points := qdrant_setPayload i pp (points w2)\<rparr>)
           else (Inl (Failed ''Failed to update memory'' QdrantError), w3)))"

definition deleteMemory :: "env \<Rightarrow> string \<Rightarrow> world \<Rightarrow> unit result" where
  "deleteMemory env i w =
     (let w1 = sent (DeletePoints i) w in
      if request_ok env w
      then (Inr (), w1\<lparr>points := qdrant_delete i (points w)\<rparr>)
      else (Inl (Failed ''Failed to delete memory'' QdrantError), w1))"

definition deleteAllMemories :: "env \<Rightarrow> string \<Rightarrow> world \<Rightarrow> unit result" where
  "deleteAllMemories env uid w =
     (let w1 = sent (DeleteFilter uid) w in
      if request_ok env w
      then (Inr (), w1\<lparr>points := qdrant_delete_filter uid (points w)\<rparr>)
      else (Inl (Failed ''Failed to delete all memories'' QdrantError), w1))"

text \<open>
  The object literal that \<open>getMemory\<close>, \<open>searchMemories\<close> and \<open>getMemoriesByDateRange\<close>
  build from a returned point. None of the three requests asks for vectors
  (\<open>with_vector\<close> is not set), so \<open>point.vector\<close> is absent in the answer.
\<close>

definition toMemory :: "point \<Rightarrow> Memory" where
  "toMemory q =
     \<lparr> memory_id = pt_id q,
       content = p_content (pt_payload q),
       metadata = p_metadata (pt_payload q),
       vector = None,
       createdAt = p_createdAt (pt_payload q),
       updatedAt = p_updatedAt (pt_payload q) \<rparr>"

text \<open>
  \<open>getMemory\<close>: \<open>null\<close> when the answer is empty, and also from the \<open>catch\<close> block, which
  logs the error and returns \<open>null\<close>. It cannot throw: its result is an option.
\<close>

definition getMemory :: "env \<Rightarrow> string \<Rightarrow> world \<Rightarrow> Memory option \<times> world" where
  "getMemory env i w =
     (let w1 = sent (Retrieve i) w in
      if request_ok env w
      then (case qdrant_retrieve i (points w) of
              [] \<Rightarrow> (None, w1)
            | q # _ \<Rightarrow> (Some (toMemory q), w1))
      else (None, w1))"

text \<open>
  \<open>searchMemories\<close>: defaults \<open>limit = 10\<close> and \<open>threshold = 0.3\<close>; the error when neither
  a vector nor a truthy query is given; the given vector or else the embedding of the
  query; one \<open>search\<close>. Every failure is rethrown as \<open>Failed to search memories\<close>.
\<close>

definition searchMemories :: "env \<Rightarrow> MemorySearchParams \<Rightarrow> world \<Rightarrow> Memory list result" where
  "searchMemories env params w =
     (let lmt = (case sp_limit params of None \<Rightarrow> 10 | Some l \<Rightarrow> l);
          thr = (case sp_threshold params of None \<Rightarrow> 3 / 10 | Some t \<Rightarrow> t) in
      if sp_vector params = None \<and> \<not> truthy (sp_query params)
      then (Inl (Failed ''Failed to search memories'' VectorOrQueryRequired), w)
      else
        case (case sp_vector params of
                Some v \<Rightarrow> (Inr v, w)
              | None \<Rightarrow> embedQuery env (case sp_query params of None \<Rightarrow> [] | Some q \<Rightarrow> q) w) of
          (Inl e, w1) \<Rightarrow> (Inl (Failed ''Failed to search memories'' e), w1)
        | (Inr v, w1) \<Rightarrow>
            (let w2 = sent (Search (sp_userId params) v lmt thr) w1 in
             if request_ok env w1
             then (Inr (map toMemory
                         (qdrant_search (similarity env) (sp_userId params) v lmt thr (points w1))),
                   w2)
             else (Inl (Failed ''Failed to search memories'' QdrantError), w2)))"

text \<open>
  \<open>getMemoriesByDateRange\<close>: one \<open>scroll\<close> with the user filter and the range on
  \<open>metadata.timestamp\<close>; \<open>limit\<close> is 50 when the caller gives none.
\<close>

definition getMemoriesByDateRange ::
  "env \<Rightarrow> string \<Rightarrow> int \<Rightarrow> int \<Rightarrow> nat option \<Rightarrow> world \<Rightarrow> Memory list result" where
  "getMemoriesByDateRange env uid startDate endDate limit w =
     (let lmt = (case limit of None \<Rightarrow> 50 | Some l \<Rightarrow> l);
          w1 = sent (Scroll uid startDate endDate lmt) w in
      if request_ok env w
      then (Inr (map toMemory (qdrant_scroll uid startDate endDate lmt (points w))), w1)
      else (Inl (Failed ''Failed to get memories by date range'' QdrantError), w1))"


section \<open>AgenticMemory (the second source file)\<close>

text \<open>
  \<open>extractFacts\<close>: one structured answer of the language model, returned as it is; a
  rejection of \<open>generateObject\<close> is not caught.
\<close>

definition extractFacts :: "env \<Rightarrow> string \<Rightarrow> world \<Rightarrow> string list result" where
  "extractFacts env input w =
     (case llm_facts env input of
        None \<Rightarrow> (Inl OpenAIError, w)
      | Some facts \<Rightarrow> (Inr facts, w))"

text \<open>
  Step 2 of \<open>add\<close>: the loop that embeds each fact and stores the vector in the
  \<open>Map\<close> \<open>factEmbeddings\<close> under the fact text.
\<close>

fun embedFacts ::
  "env \<Rightarrow> string list \<Rightarrow> (string \<rightharpoonup> vec) \<Rightarrow> world \<Rightarrow> (string \<rightharpoonup> vec) result" where
  "embedFacts env [] factEmbeddings w = (Inr factEmbeddings, w)"
| "embedFacts env (fct # facts) factEmbeddings w =
     (case embedQuery env fct w of
        (Inl e, w1) \<Rightarrow> (Inl e, w1)
      | (Inr embedding, w1) \<Rightarrow>
          embedFacts env facts (factEmbeddings(fct \<mapsto> embedding)) w1)"

text \<open>
  \<open>findSimilarMemories\<close>: for each fact, its embedding and then one search with that
  vector, \<open>limit: 5\<close>, \<open>threshold: 0.5\<close>; the results are appended to \<open>allMemories\<close>.
\<close>

fun collectSimilar ::
  "env \<Rightarrow> string \<Rightarrow> string list \<Rightarrow> Memory list \<Rightarrow> world \<Rightarrow> Memory list result" where
  "collectSimilar env uid [] allMemories w = (Inr allMemories, w)"
| "collectSimilar env uid (fct # facts) allMemories w =
     (case embedQuery env fct w of
        (Inl e, w1) \<Rightarrow> (Inl e, w1)
      | (Inr embedding, w1) \<Rightarrow>
          (case searchMemories env
                  \<lparr> sp_userId = uid, sp_query = None, sp_vector = Some embedding,
                    sp_limit = Some 5, sp_threshold = Some (5 / 10) \<rparr> w1 of
             (Inl e, w2) \<Rightarrow> (Inl e, w2)
           | (Inr similarMemories, w2) \<Rightarrow>
               collectSimilar env uid facts (allMemories @ similarMemories) w2))"

text \<open>
  \<open>findIndex\<close> of JavaScript (\<open>None\<close> for \<open>-1\<close>), and the duplicate filter
  \<open>self.filter((memory, index, self) => index === self.findIndex((m) => m.id === memory.id))\<close>.
\<close>

fun findIndex :: "('a \<Rightarrow> bool) \<Rightarrow> 'a list \<Rightarrow> nat option" where
  "findIndex P [] = None"
| "findIndex P (x # xs) = (if P x then Some 0 else map_option Suc (findIndex P xs))"

definition removeDuplicates :: "Memory list \<Rightarrow> Memory list" where
  "removeDuplicates self =
     map snd (filter (\<lambda>(index, memory).
                        findIndex (\<lambda>m. memory_id m = memory_id memory) self = Some index)
                     (enumerate 0 self))"

definition findSimilarMemories ::
  "env \<Rightarrow> string list \<Rightarrow> string \<Rightarrow> world \<Rightarrow> Memory list result" where
  "findSimilarMemories env facts uid w =
     (case collectSimilar env uid facts [] w of
        (Inl e, w1) \<Rightarrow> (Inl e, w1)
      | (Inr allMemories, w1) \<Rightarrow> (Inr (removeDuplicates allMemories), w1))"

text \<open>
  \<open>generateConsolidationActions\<close>: the candidates are formatted as (id, text) pairs,
  the language model is asked once, and \<open>object.actions\<close> is returned as it is. The schema
  constrains the shape of each action only.
\<close>

definition formattedMemories :: "Memory list \<Rightarrow> (string \<times> string) list" where
  "formattedMemories oldMemories = map (\<lambda>memory. (memory_id memory, content memory)) oldMemories"

definition generateConsolidationActions ::
  "env \<Rightarrow> Memory list \<Rightarrow> string list \<Rightarrow> world \<Rightarrow> MemoryAction list result" where
  "generateConsolidationActions env oldMemories newFacts w =
     (case llm_actions env (formattedMemories oldMemories) newFacts of
        None \<Rightarrow> (Inl OpenAIError, w)
      | Some actions \<Rightarrow> (Inr actions, w))"

text \<open>
  The body of the loop of \<open>applyMemoryActions\<close>: the \<open>switch\<close> on the action type. For
  \<open>ADD\<close>, \<open>Date.now()\<close> is read while the argument object is built, before \<open>addMemory\<close>
  runs.
\<close>

definition applyMemoryAction ::
  "env \<Rightarrow> MemoryAction \<Rightarrow> (string \<rightharpoonup> vec) \<Rightarrow> MemoryMetadata \<Rightarrow> world \<Rightarrow> unit result" where
  "applyMemoryAction env action factEmbeddings context w =
     (case a_type action of
        ADD \<Rightarrow>
          (let (now, w1) = Date_now env w in
           case addMemory env
                  \<lparr> n_vector = factEmbeddings (a_text action),
                    n_content = a_text action,
                    n_metadata = \<lparr> userId = userId context, timestamp = now \<rparr> \<rparr> w1 of
             (Inl e, w2) \<Rightarrow> (Inl e, w2)
           | (Inr _, w2) \<Rightarrow> (Inr (), w2))
      | UPDATE \<Rightarrow>
          (if truthy (a_id action)
           then updateMemory env (the (a_id action))
                  \<lparr> u_content = Some (a_text action), u_metadata = None \<rparr> w
           else (Inr (), w))
      | DELETE \<Rightarrow>
          (if truthy (a_id action)
           then deleteMemory env (the (a_id action)) w
           else (Inr (), w))
      | UNCHANGED \<Rightarrow> (Inr (), w))"

fun applyMemoryActions ::
  "env \<Rightarrow> MemoryAction list \<Rightarrow> (string \<rightharpoonup> vec) \<Rightarrow> MemoryMetadata \<Rightarrow> world \<Rightarrow> unit result" where
  "applyMemoryActions env [] factEmbeddings context w = (Inr (), w)"
| "applyMemoryActions env (action # actions) factEmbeddings context w =
     (case applyMemoryAction env action factEmbeddings context w of
        (Inl e, w1) \<Rightarrow> (Inl e, w1)
      | (Inr _, w1) \<Rightarrow> applyMemoryActions env actions factEmbeddings context w1)"

text \<open>\<open>add\<close>: the five steps, each aborting the call when it throws.\<close>

definition add :: "env \<Rightarrow> string \<Rightarrow> MemoryMetadata \<Rightarrow> world \<Rightarrow> unit result" where
  "add env input context w =
     (case extractFacts env input w of
        (Inl e, w0) \<Rightarrow> (Inl e, w0)
      | (Inr facts, w0) \<Rightarrow>
     (case embedFacts env facts Map.empty w0 of
        (Inl e, w1) \<Rightarrow> (Inl e, w1)
      | (Inr factEmbeddings, w1) \<Rightarrow>
     (case findSimilarMemories env facts (userId context) w1 of
        (Inl e, w2) \<Rightarrow> (Inl e, w2)
      | (Inr oldMemories, w2) \<Rightarrow>
     (case generateConsolidationActions env oldMemories facts w2 of
        (Inl e, w3) \<Rightarrow> (Inl e, w3)
      | (Inr actions, w3) \<Rightarrow>
          applyMemoryActions env actions factEmbeddings context w3))))"

text \<open>The operations that bypass consolidation and call the storage layer directly.\<close>

definition search :: "env \<Rightarrow> string \<Rightarrow> MemoryMetadata \<Rightarrow> world \<Rightarrow> Memory list result" where
  "search env query context w =
     searchMemories env
       \<lparr> sp_userId = userId context, sp_query = Some query, sp_vector = None,
         sp_limit = Some 10, sp_threshold = Some (3 / 10) \<rparr> w"

definition get :: "env \<Rightarrow> string \<Rightarrow> world \<Rightarrow> Memory option \<times> world" where
  "get env i w = getMemory env i w"

definition update :: "env \<Rightarrow> string \<Rightarrow> string \<Rightarrow> world \<Rightarrow> unit result" where
  "update env i c w = updateMemory env i \<lparr> u_content = Some c, u_metadata = None \<rparr> w"

definition delete :: "env \<Rightarrow> string \<Rightarrow> world \<Rightarrow> unit result" where
  "delete env i w = deleteMemory env i w"

text \<open>
  \<open>AgenticMemory.getMemoriesByDateRange\<close> hands its arguments to the storage method of
  the same name (its own default for \<open>limit\<close> is 50 as well).
\<close>

definition AgenticMemory_getMemoriesByDateRange ::
  "env \<Rightarrow> string \<Rightarrow> int \<Rightarrow> int \<Rightarrow> nat option \<Rightarrow> world \<Rightarrow> Memory list result" where
  "AgenticMemory_getMemoriesByDateRange env uid startDate endDate limit w =
     getMemoriesByDateRange env uid startDate endDate
       (Some (case limit of None \<Rightarrow> 50 | Some l \<Rightarrow> l)) w"


section \<open>Concrete collaborators and worlds\<close>

text \<open>
  An empty world, two users, a collection holding one memory of each, and collaborators
  under which nothing fails: the extractor returns the input as its single fact and the
  resolver answers \<open>ADD\<close> for each fact. The examples below vary them field by field.
\<close>

definition world0 :: world where
  "world0 = \<lparr> points = [], qdrant_log = [], embed_log = [], clock_reads = 0, uuids_drawn = 0 \<rparr>"

definition alice :: MemoryMetadata where
  "alice = \<lparr> userId = ''alice'', timestamp = 7 \<rparr>"

definition bob :: MemoryMetadata where
  "bob = \<lparr> userId = ''bob'', timestamp = 8 \<rparr>"

definition action :: "action_type \<Rightarrow> string option \<Rightarrow> string \<Rightarrow> MemoryAction" where
  "action ty i t = \<lparr> a_type = ty, a_id = i, a_text = t, a_oldFact = None \<rparr>"

definition env0 :: env where
  "env0 = \<lparr> embed_model = (\<lambda>t. if t = ''likes tea'' then [1, 0] else [0, 1]),
             embed_fails = (\<lambda>n. False),
             similarity = (\<lambda>u v. if u = v then 1 else 0),
             qdrant_fails = (\<lambda>n. False),
             date_now = (\<lambda>n. 1000 + int n),
             random_uuid = (\<lambda>n. replicate (Suc n) CHR ''m''),
             llm_facts = (\<lambda>input. Some [input]),
             llm_actions = (\<lambda>candidates facts. Some (map (action ADD None) facts)) \<rparr>"

definition tea :: point where
  "tea = \<lparr> pt_id = ''a1'', pt_vector = [1, 0],
           pt_payload = \<lparr> p_content = ''likes tea'',
                           p_metadata = \<lparr> userId = ''alice'', timestamp = 10 \<rparr>,
                           p_createdAt = 10, p_updatedAt = 10, p_vector = None \<rparr> \<rparr>"

definition coffee :: point where
  "coffee = \<lparr> pt_id = ''b1'', pt_vector = [0, 1],
              pt_payload = \<lparr> p_content = ''likes coffee'',
                              p_metadata = \<lparr> userId = ''bob'', timestamp = 20 \<rparr>,
                              p_createdAt = 20, p_updatedAt = 20, p_vector = None \<rparr> \<rparr>"

definition world1 :: world where
  "world1 = world0\<lparr> points := [tea, coffee] \<rparr>"

text \<open>Collaborators whose second request to the database is rejected, and three actions.\<close>

definition env_second_request_fails :: env where
  "env_second_request_fails = env0\<lparr> qdrant_fails := (\<lambda>n. n = 1) \<rparr>"

definition three_actions :: "MemoryAction list" where
  "three_actions = [action ADD None ''likes tea'', action DELETE (Some ''m'') ''gone'',
                    action ADD None ''likes jam'']"


text \<open>Collaborators whose first request to the database is rejected.\<close>

definition env_first_request_fails :: env where
  "env_first_request_fails = env0\<lparr> qdrant_fails := (\<lambda>n. n = 0) \<rparr>"


text \<open>
  Answers that the schema admits: a resolver that answers with no action at all; an
  extractor that finds no fact, with a resolver that answers \<open>ADD\<close> all the same; a
  resolver that answers with an \<open>UPDATE\<close> that carries no identifier and a \<open>DELETE\<close> that
  names an identifier; and one whose \<open>UPDATE\<close> carries no identifier and whose \<open>DELETE\<close>
  carries the empty one.
\<close>

definition env_no_actions :: env where
  "env_no_actions = env0\<lparr> llm_actions := (\<lambda>candidates facts. Some []) \<rparr>"


definition env_loose_ids :: env where
  "env_loose_ids = env0\<lparr> llm_actions := (\<lambda>candidates facts.
       Some [action UPDATE None ''likes jam'', action DELETE (Some ''b1'') ''likes tea'']) \<rparr>"

definition env_idless :: env where
  "env_idless = env0\<lparr> llm_actions := (\<lambda>candidates facts.
       Some [action UPDATE None ''likes jam'', action DELETE (Some []) ''likes tea'']) \<rparr>"


lemmas storage_defs =
  embedQuery_def addMemory_def updateMemory_def deleteMemory_def getMemory_def
  searchMemories_def getMemoriesByDateRange_def toMemory_def request_ok_def sent_def
  Date_now_def randomUUID_def qdrant_upsert_def qdrant_setPayload_def merge_payload_def
  qdrant_delete_def qdrant_retrieve_def qdrant_search_def qdrant_scroll_def owned_by_def
  Let_def

lemmas memory_defs =
  add_def extractFacts_def findSimilarMemories_def removeDuplicates_def
  generateConsolidationActions_def formattedMemories_def applyMemoryAction_def
  search_def get_def update_def delete_def
  AgenticMemory_getMemoriesByDateRange_def

lemmas example_defs =
  world0_def world1_def alice_def bob_def action_def env0_def tea_def coffee_def


section \<open>Auxiliary facts\<close>

subsection \<open>What the read-only steps leave alone\<close>

lemma embedQuery_frame:
  "embedQuery env q w = (r, w') \<Longrightarrow>
     points w' = points w \<and> qdrant_log w' = qdrant_log w \<and> embed_log w' = embed_log w @ [q]
     \<and> clock_reads w' = clock_reads w \<and> uuids_drawn w' = uuids_drawn w"
  by (auto simp: embedQuery_def Let_def split: if_splits)

lemma embedQuery_Inr:
  "embedQuery env q w = (Inr v, w') \<Longrightarrow> v = embed_model env q"
  by (auto simp: embedQuery_def Let_def split: if_splits)

lemma searchMemories_vector:
  "searchMemories env \<lparr> sp_userId = uid, sp_query = qo, sp_vector = Some v,
                         sp_limit = Some k, sp_threshold = Some t \<rparr> w = (Inr ms, w') \<Longrightarrow>
     ms = map toMemory (qdrant_search (similarity env) uid v k t (points w))
     \<and> w' = sent (Search uid v k t) w"
  by (auto simp: searchMemories_def Let_def split: if_splits)

lemma sent_simps [simp]:
  "points (sent r w) = points w"
  "qdrant_log (sent r w) = qdrant_log w @ [r]"
  "embed_log (sent r w) = embed_log w"
  "clock_reads (sent r w) = clock_reads w"
  "uuids_drawn (sent r w) = uuids_drawn w"
  by (simp_all add: sent_def)

lemma collectSimilar_result:
  "collectSimilar env uid facts acc w = (Inr ms, w') \<Longrightarrow>
     ms = acc @ concat (map (\<lambda>f. map toMemory
            (qdrant_search (similarity env) uid (embed_model env f) 5 (5 / 10) (points w))) facts)
     \<and> qdrant_log w' = qdrant_log w @ map (\<lambda>f. Search uid (embed_model env f) 5 (5 / 10)) facts
     \<and> embed_log w' = embed_log w @ facts
     \<and> points w' = points w"
proof (induction facts arbitrary: acc w)
  case Nil
  then show ?case by simp
next
  case (Cons f fs)
  from Cons.prems obtain v w1 where e: "embedQuery env f w = (Inr v, w1)"
    by (auto split: prod.splits sum.splits)
  with Cons.prems obtain sm w2 where
    s: "searchMemories env \<lparr> sp_userId = uid, sp_query = None, sp_vector = Some v,
          sp_limit = Some 5, sp_threshold = Some (5 / 10) \<rparr> w1 = (Inr sm, w2)"
    and r: "collectSimilar env uid fs (acc @ sm) w2 = (Inr ms, w')"
    by (auto split: prod.splits sum.splits)
  note fr = embedQuery_frame [OF e] embedQuery_Inr [OF e] searchMemories_vector [OF s]
  from Cons.IH [OF r] fr show ?case by simp
qed

subsection \<open>The duplicate filter\<close>

lemma findIndex_Some:
  "findIndex P xs = Some i \<Longrightarrow> i < length xs \<and> P (xs ! i) \<and> (\<forall>j<i. \<not> P (xs ! j))"
proof (induction xs arbitrary: i)
  case Nil
  then show ?case by simp
next
  case (Cons x xs)
  show ?case
  proof (cases "P x")
    case True
    with Cons.prems show ?thesis by simp
  next
    case False
    with Cons.prems obtain k where k: "findIndex P xs = Some k" "i = Suc k"
      by auto
    from Cons.IH [OF k(1)] False k(2) show ?thesis
      by (auto simp: less_Suc_eq_0_disj)
  qed
qed

lemma findIndex_None: "findIndex P xs = None \<Longrightarrow> \<forall>x\<in>set xs. \<not> P x"
  by (induction xs) (auto split: if_splits)

lemma findIndex_exists: "x \<in> set xs \<Longrightarrow> P x \<Longrightarrow> \<exists>i. findIndex P xs = Some i"
  using findIndex_None [of P xs] by (cases "findIndex P xs") auto

lemma removeDuplicates_distinct: "distinct (map memory_id (removeDuplicates xs))"
proof -
  let ?keep = "\<lambda>(index, memory). findIndex (\<lambda>m. memory_id m = memory_id memory) xs = Some index"
  let ?ys = "filter ?keep (enumerate 0 xs)"
  have d: "distinct ?ys"
    by (simp add: distinct_enumerate)
  have inj: "inj_on (\<lambda>p. memory_id (snd p)) (set ?ys)"
  proof (rule inj_onI)
    fix p q
    assume p: "p \<in> set ?ys" and q: "q \<in> set ?ys"
      and eq: "memory_id (snd p) = memory_id (snd q)"
    obtain i m where pm: "p = (i, m)" by (cases p)
    obtain j n where qn: "q = (j, n)" by (cases q)
    from p pm have 1: "findIndex (\<lambda>m'. memory_id m' = memory_id m) xs = Some i"
      and 2: "m = xs ! i" by (auto simp: in_set_enumerate_eq)
    from q qn have 3: "findIndex (\<lambda>m'. memory_id m' = memory_id n) xs = Some j"
      and 4: "n = xs ! j" by (auto simp: in_set_enumerate_eq)
    from eq pm qn 1 3 have "i = j" by simp
    with 2 4 pm qn show "p = q" by simp
  qed
  have "distinct (map (\<lambda>p. memory_id (snd p)) ?ys)"
    using d inj by (simp add: distinct_map)
  then show ?thesis
    by (simp add: removeDuplicates_def comp_def)
qed

lemma removeDuplicates_subset: "set (removeDuplicates xs) \<subseteq> set xs"
  by (auto simp: removeDuplicates_def in_set_enumerate_eq)

lemma removeDuplicates_ids:
  "memory_id ` set (removeDuplicates xs) = memory_id ` set xs"
proof
  show "memory_id ` set (removeDuplicates xs) \<subseteq> memory_id ` set xs"
    using removeDuplicates_subset by blast
  show "memory_id ` set xs \<subseteq> memory_id ` set (removeDuplicates xs)"
  proof
    fix a assume "a \<in> memory_id ` set xs"
    then obtain x where x: "x \<in> set xs" "memory_id x = a" by auto
    then obtain i where i: "findIndex (\<lambda>m. memory_id m = a) xs = Some i"
      using findIndex_exists [of x xs "\<lambda>m. memory_id m = a"] by auto
    from findIndex_Some [OF i] have l: "i < length xs" and a: "memory_id (xs ! i) = a"
      by auto
    have "(i, xs ! i) \<in> set (enumerate 0 xs)"
      using l by (simp add: in_set_enumerate_eq)
    with i a have "xs ! i \<in> set (removeDuplicates xs)"
      by (force simp: removeDuplicates_def)
    with a show "a \<in> memory_id ` set (removeDuplicates xs)" by force
  qed
qed

lemma applyMemoryActions_append:
  "applyMemoryActions env (as @ bs) fe ctx w =
     (case applyMemoryActions env as fe ctx w of
        (Inl e, w1) \<Rightarrow> (Inl e, w1)
      | (Inr _, w1) \<Rightarrow> applyMemoryActions env bs fe ctx w1)"
  by (induction as arbitrary: w) (auto split: prod.splits sum.splits)

subsection \<open>Applying actions\<close>

lemma addMemory_failure_frame:
  "addMemory env memory w = (Inl e, w') \<Longrightarrow> points w' = points w"
  by (auto simp: addMemory_def randomUUID_def Date_now_def Let_def
      split: prod.splits sum.splits option.splits if_splits dest: embedQuery_frame)

lemma updateMemory_failure_frame:
  "updateMemory env i updates w = (Inl e, w') \<Longrightarrow> points w' = points w"
  by (auto simp: updateMemory_def Date_now_def Let_def
      split: prod.splits sum.splits option.splits if_splits dest: embedQuery_frame)

lemma deleteMemory_failure_frame:
  "deleteMemory env i w = (Inl e, w') \<Longrightarrow> points w' = points w"
  by (auto simp: deleteMemory_def Let_def split: if_splits)

lemma applyMemoryAction_failure_frame:
  "applyMemoryAction env a fe ctx w = (Inl e, w') \<Longrightarrow> points w' = points w"
  by (cases "a_type a")
     (auto simp: applyMemoryAction_def Date_now_def Let_def
       split: prod.splits sum.splits if_splits
       dest: addMemory_failure_frame updateMemory_failure_frame deleteMemory_failure_frame)

subsection \<open>Search results\<close>

lemma qdrant_search_owned:
  "q \<in> set (qdrant_search sim uid v k t pts) \<Longrightarrow>
     q \<in> set pts \<and> owned_by uid q \<and> t \<le> sim v (pt_vector q)"
  by (auto simp: qdrant_search_def dest!: in_set_takeD)

lemma qdrant_search_length: "length (qdrant_search sim uid v k t pts) \<le> k"
  by (simp add: qdrant_search_def)

lemma toMemory_owner: "userId (metadata (toMemory q)) = uid \<longleftrightarrow> owned_by uid q"
  by (auto simp: toMemory_def owned_by_def)

subsection \<open>The caller's timestamp\<close>

lemma applyMemoryAction_ignores_timestamp:
  "applyMemoryAction env a fe (ctx\<lparr>timestamp := t\<rparr>) w = applyMemoryAction env a fe ctx w"
  by (cases "a_type a") (simp_all add: applyMemoryAction_def)

lemma applyMemoryActions_ignores_timestamp:
  "applyMemoryActions env as fe (ctx\<lparr>timestamp := t\<rparr>) w = applyMemoryActions env as fe ctx w"
  by (induction as arbitrary: w)
     (simp_all add: applyMemoryAction_ignores_timestamp split: prod.splits sum.splits)

lemma add_ignores_timestamp:
  "add env input (ctx\<lparr>timestamp := t\<rparr>) w = add env input ctx w"
  by (simp add: add_def applyMemoryActions_ignores_timestamp split: prod.splits sum.splits)

lemma applyMemoryAction_ADD:
  assumes "a_type a = ADD" and "applyMemoryAction env a fe ctx w = (Inr (), w')"
  shows "points w' = qdrant_upsert
           \<lparr> pt_id = random_uuid env (uuids_drawn w),
             pt_vector = (case fe (a_text a) of Some v \<Rightarrow> v | None \<Rightarrow> embed_model env (a_text a)),
             pt_payload = \<lparr> p_content = a_text a,
                             p_metadata = \<lparr> userId = userId ctx,
                                             timestamp = date_now env (clock_reads w) \<rparr>,
                             p_createdAt = date_now env (Suc (clock_reads w)),
                             p_updatedAt = date_now env (Suc (clock_reads w)),
                             p_vector = None \<rparr> \<rparr> (points w)"
  using assms
  by (auto simp: applyMemoryAction_def addMemory_def Date_now_def randomUUID_def embedQuery_def
      sent_def Let_def split: prod.splits sum.splits option.splits if_splits)

lemma qdrant_scroll_range:
  "q \<in> set (qdrant_scroll uid s e k pts) \<Longrightarrow>
     q \<in> set pts \<and> owned_by uid q \<and> s \<le> timestamp (p_metadata (pt_payload q))
     \<and> timestamp (p_metadata (pt_payload q)) \<le> e"
  by (auto simp: qdrant_scroll_def dest!: in_set_takeD)

lemma getMemoriesByDateRange_result:
  "getMemoriesByDateRange env uid s e k w = (Inr ms, w') \<Longrightarrow>
     ms = map toMemory (qdrant_scroll uid s e (case k of None \<Rightarrow> 50 | Some l \<Rightarrow> l) (points w))
     \<and> points w' = points w"
  by (auto simp: getMemoriesByDateRange_def Let_def split: if_splits)

lemma toMemory_timestamp:
  "timestamp (metadata (toMemory q)) = timestamp (p_metadata (pt_payload q))"
  by (simp add: toMemory_def)

subsection \<open>Reading by identifier\<close>

lemma qdrant_retrieve_empty: "qdrant_retrieve i pts = [] \<longleftrightarrow> i \<notin> pt_id ` set pts"
  by (auto simp: qdrant_retrieve_def filter_empty_conv)

lemma getMemory_None:
  "fst (getMemory env i w) = None \<longleftrightarrow> \<not> request_ok env w \<or> i \<notin> pt_id ` set (points w)"
  using qdrant_retrieve_empty [of i "points w"]
  by (auto simp: getMemory_def Let_def split: list.splits)

lemma getMemory_Some:
  "fst (getMemory env i w) = Some m \<Longrightarrow>
     memory_id m = i \<and> m \<in> toMemory ` set (points w)"
proof -
  assume a: "fst (getMemory env i w) = Some m"
  then obtain q qs where q: "qdrant_retrieve i (points w) = q # qs" and m: "m = toMemory q"
    by (auto simp: getMemory_def Let_def split: if_splits list.splits)
  from q have "q \<in> set (qdrant_retrieve i (points w))" by simp
  then have "q \<in> set (points w)" "pt_id q = i"
    by (simp_all add: qdrant_retrieve_def)
  with m have "memory_id m = i"
    by (simp add: toMemory_def)
  moreover from m \<open>q \<in> set (points w)\<close> have "m \<in> toMemory ` set (points w)"
    by (rule image_eqI)
  ultimately show ?thesis by simp
qed

lemma getMemory_frame: "points (snd (getMemory env i w)) = points w"
  by (simp add: getMemory_def Let_def split: list.splits)

subsection \<open>Reads scoped by user\<close>

lemma searchMemories_frame: "points (snd (searchMemories env params w)) = points w"
  by (auto simp: searchMemories_def embedQuery_def Let_def split: option.splits)

lemma searchMemories_owner:
  assumes "searchMemories env params w = (Inr ms, w')" and "m \<in> set ms"
  shows "userId (metadata m) = sp_userId params"
proof -
  from assms(1) obtain v k t pts where
    "ms = map toMemory (qdrant_search (similarity env) (sp_userId params) v k t pts)"
    by (auto simp: searchMemories_def Let_def split: if_splits prod.splits sum.splits)
  with assms(2) obtain q where
    "q \<in> set (qdrant_search (similarity env) (sp_userId params) v k t pts)" "m = toMemory q"
    by auto
  then show ?thesis
    using qdrant_search_owned toMemory_owner by blast
qed

lemma getMemoriesByDateRange_frame:
  "points (snd (getMemoriesByDateRange env uid s e k w)) = points w"
  by (simp add: getMemoriesByDateRange_def Let_def)

lemma getMemoriesByDateRange_owner:
  assumes "getMemoriesByDateRange env uid s e k w = (Inr ms, w')" and "m \<in> set ms"
  shows "userId (metadata m) = uid"
proof -
  from getMemoriesByDateRange_result [OF assms(1)] assms(2)
  obtain q where "q \<in> set (qdrant_scroll uid s e (case k of None \<Rightarrow> 50 | Some l \<Rightarrow> l) (points w))"
    "m = toMemory q"
    by auto
  then show ?thesis
    using qdrant_scroll_range toMemory_owner by blast
qed

subsection \<open>The steps of add\<close>

lemma embedFacts_frame:
  "embedFacts env facts fe w = (r, w') \<Longrightarrow>
     points w' = points w \<and> qdrant_log w' = qdrant_log w"
proof (induction facts arbitrary: fe w)
  case Nil
  then show ?case by auto
next
  case (Cons f fs)
  obtain r1 w1 where e: "embedQuery env f w = (r1, w1)" by (cases "embedQuery env f w")
  note fr = embedQuery_frame [OF e]
  show ?case
  proof (cases r1)
    case (Inl err)
    with Cons.prems e fr show ?thesis by auto
  next
    case (Inr v)
    with Cons.prems e have "embedFacts env fs (fe(f \<mapsto> v)) w1 = (r, w')" by simp
    from Cons.IH [OF this] fr show ?thesis by simp
  qed
qed


lemma findSimilarMemories_frame:
  "findSimilarMemories env facts uid w = (r, w') \<Longrightarrow> points w' = points w"
proof -
  have c: "points (snd (collectSimilar env uid fs acc w0)) = points w0" for fs acc w0
  proof (induction fs arbitrary: acc w0)
    case Nil
    show ?case by simp
  next
    case (Cons f fs)
    obtain r1 w1 where e: "embedQuery env f w0 = (r1, w1)" by (cases "embedQuery env f w0")
    note fr = embedQuery_frame [OF e]
    show ?case
    proof (cases r1)
      case (Inl err)
      with e fr show ?thesis by simp
    next
      case (Inr v)
      let ?p = "\<lparr> sp_userId = uid, sp_query = None, sp_vector = Some v,
                  sp_limit = Some 5, sp_threshold = Some (5 / 10) \<rparr>"
      obtain r2 w2 where s: "searchMemories env ?p w1 = (r2, w2)"
        by (cases "searchMemories env ?p w1")
      from searchMemories_frame [of env ?p w1] s have p2: "points w2 = points w1" by simp
      show ?thesis
      proof (cases r2)
        case (Inl err)
        with e Inr s p2 fr show ?thesis by simp
      next
        case (Inr sm)
        with e \<open>r1 = Inr v\<close> s p2 fr Cons.IH [of "acc @ sm" w2] show ?thesis by simp
      qed
    qed
  qed
  assume "findSimilarMemories env facts uid w = (r, w')"
  with c [of facts "[]" w] show ?thesis
    by (auto simp: findSimilarMemories_def split: prod.splits sum.splits)
qed

lemma add_steps:
  assumes "llm_facts env input = Some facts"
    and "embedFacts env facts Map.empty w = (Inr fe, w1)"
    and "findSimilarMemories env facts (userId ctx) w1 = (Inr olds, w2)"
    and "llm_actions env (formattedMemories olds) facts = Some acts"
  shows "add env input ctx w = applyMemoryActions env acts fe ctx w2"
  using assms by (simp add: add_def extractFacts_def generateConsolidationActions_def)

lemma idless_actions_skipped:
  "\<forall>a\<in>set acts. (a_type a = UPDATE \<or> a_type a = DELETE) \<and> \<not> truthy (a_id a) \<Longrightarrow>
     applyMemoryActions env acts fe ctx w = (Inr (), w)"
  by (induction acts) (auto simp: applyMemoryAction_def)

subsection \<open>Embedding calls and stored vectors\<close>



lemma updateMemory_keeps_vectors:
  "map pt_vector (points (snd (updateMemory env i updates w))) = map pt_vector (points w)"
proof -
  have s: "map pt_vector (qdrant_setPayload i pp pts) = map pt_vector pts" for pp pts
    by (induction pts) (simp_all add: qdrant_setPayload_def)
  show ?thesis
    by (auto simp: updateMemory_def Date_now_def embedQuery_def sent_def Let_def s
        split: option.splits)
qed


subsection \<open>Clock readings and stored points of a whole call\<close>

lemma embedFacts_counters:
  "embedFacts env facts fe w = (r, w') \<Longrightarrow>
     clock_reads w' = clock_reads w \<and> uuids_drawn w' = uuids_drawn w"
proof (induction facts arbitrary: fe w)
  case Nil
  then show ?case by auto
next
  case (Cons f fs)
  obtain r1 w1 where e: "embedQuery env f w = (r1, w1)" by (cases "embedQuery env f w")
  note fr = embedQuery_frame [OF e]
  show ?case
  proof (cases r1)
    case (Inl err)
    with Cons.prems e fr show ?thesis by auto
  next
    case (Inr v)
    with Cons.prems e have "embedFacts env fs (fe(f \<mapsto> v)) w1 = (r, w')" by simp
    from Cons.IH [OF this] fr show ?thesis by simp
  qed
qed

lemma searchMemories_counters:
  "clock_reads (snd (searchMemories env params w)) = clock_reads w
   \<and> uuids_drawn (snd (searchMemories env params w)) = uuids_drawn w"
  by (auto simp: searchMemories_def embedQuery_def Let_def split: option.splits)

lemma collectSimilar_counters:
  "clock_reads (snd (collectSimilar env uid fs acc w)) = clock_reads w
   \<and> uuids_drawn (snd (collectSimilar env uid fs acc w)) = uuids_drawn w"
proof (induction fs arbitrary: acc w)
  case Nil
  show ?case by simp
next
  case (Cons f fs)
  obtain r1 w1 where e: "embedQuery env f w = (r1, w1)" by (cases "embedQuery env f w")
  note fr = embedQuery_frame [OF e]
  show ?case
  proof (cases r1)
    case (Inl err)
    with e fr show ?thesis by simp
  next
    case (Inr v)
    let ?p = "\<lparr> sp_userId = uid, sp_query = None, sp_vector = Some v,
                sp_limit = Some 5, sp_threshold = Some (5 / 10) \<rparr>"
    obtain r2 w2 where s: "searchMemories env ?p w1 = (r2, w2)"
      by (cases "searchMemories env ?p w1")
    from searchMemories_counters [of env ?p w1] s
    have c2: "clock_reads w2 = clock_reads w1" "uuids_drawn w2 = uuids_drawn w1" by simp_all
    show ?thesis
    proof (cases r2)
      case (Inl err)
      with e Inr s c2 fr show ?thesis by simp
    next
      case (Inr sm)
      with e \<open>r1 = Inr v\<close> s c2 fr Cons.IH [of "acc @ sm" w2] show ?thesis by simp
    qed
  qed
qed

lemma findSimilarMemories_counters:
  "findSimilarMemories env facts uid w = (r, w') \<Longrightarrow>
     clock_reads w' = clock_reads w \<and> uuids_drawn w' = uuids_drawn w"
  using collectSimilar_counters [of env uid facts "[]" w]
  by (auto simp: findSimilarMemories_def split: prod.splits sum.splits)

lemma qdrant_upsert_member:
  "q \<in> set (qdrant_upsert p pts) \<Longrightarrow> q = p \<or> q \<in> set pts"
  by (auto simp: qdrant_upsert_def split: if_splits)

lemma qdrant_upsert_has: "p \<in> set (qdrant_upsert p pts)"
  by (auto simp: qdrant_upsert_def)

lemma qdrant_setPayload_member:
  "q \<in> set (qdrant_setPayload i pp pts) \<Longrightarrow>
     \<exists>q0\<in>set pts. pt_id q0 = pt_id q \<and> pt_vector q0 = pt_vector q
        \<and> (q = q0 \<or> pt_payload q = merge_payload pp (pt_payload q0))"
  by (auto simp: qdrant_setPayload_def)

text \<open>
  One action: the clock only advances, and every point of the collection afterwards
  either continues a point that was there before (same identifier, metadata and
  creation time) or carries the user of the context and, as \<open>metadata.timestamp\<close> and
  creation time, two consecutive readings of the clock taken during the action.
\<close>

lemma applyMemoryAction_stamps:
  assumes "applyMemoryAction env a fe ctx w = (r, w')"
  shows "clock_reads w \<le> clock_reads w'
    \<and> (\<forall>q\<in>set (points w').
          (\<exists>q0\<in>set (points w). pt_id q0 = pt_id q
              \<and> p_metadata (pt_payload q0) = p_metadata (pt_payload q)
              \<and> p_createdAt (pt_payload q0) = p_createdAt (pt_payload q))
        \<or> (userId (p_metadata (pt_payload q)) = userId ctx
            \<and> (\<exists>n. clock_reads w \<le> n \<and> Suc n < clock_reads w'
                  \<and> timestamp (p_metadata (pt_payload q)) = date_now env n
                  \<and> p_createdAt (pt_payload q) = date_now env (Suc n))))"
proof (cases "a_type a")
  case ADD
  let ?p = "\<lambda>v. \<lparr> pt_id = random_uuid env (uuids_drawn w), pt_vector = v,
             pt_payload = \<lparr> p_content = a_text a,
                             p_metadata = \<lparr> userId = userId ctx,
                                             timestamp = date_now env (clock_reads w) \<rparr>,
                             p_createdAt = date_now env (Suc (clock_reads w)),
                             p_updatedAt = date_now env (Suc (clock_reads w)),
                             p_vector = None \<rparr> \<rparr>"
  from assms ADD have c: "clock_reads w' = Suc (Suc (clock_reads w))"
    by (auto simp: applyMemoryAction_def addMemory_def Date_now_def randomUUID_def embedQuery_def
        sent_def Let_def split: prod.splits sum.splits option.splits if_splits)
  from assms ADD have "points w' = points w \<or> (\<exists>v. points w' = qdrant_upsert (?p v) (points w))"
    by (auto simp: applyMemoryAction_def addMemory_def Date_now_def randomUUID_def embedQuery_def
        sent_def Let_def split: prod.splits sum.splits option.splits if_splits)
  then show ?thesis
  proof
    assume "points w' = points w"
    with c show ?thesis by auto
  next
    assume "\<exists>v. points w' = qdrant_upsert (?p v) (points w)"
    then obtain v where v: "points w' = qdrant_upsert (?p v) (points w)" ..
    show ?thesis
    proof (intro conjI ballI)
      show "clock_reads w \<le> clock_reads w'" using c by simp
    next
      fix q assume "q \<in> set (points w')"
      with v qdrant_upsert_member have "q = ?p v \<or> q \<in> set (points w)" by metis
      then show "(\<exists>q0\<in>set (points w). pt_id q0 = pt_id q
              \<and> p_metadata (pt_payload q0) = p_metadata (pt_payload q)
              \<and> p_createdAt (pt_payload q0) = p_createdAt (pt_payload q))
        \<or> (userId (p_metadata (pt_payload q)) = userId ctx
            \<and> (\<exists>n. clock_reads w \<le> n \<and> Suc n < clock_reads w'
                  \<and> timestamp (p_metadata (pt_payload q)) = date_now env n
                  \<and> p_createdAt (pt_payload q) = date_now env (Suc n)))"
      proof
        assume q: "q = ?p v"
        have "clock_reads w \<le> clock_reads w \<and> Suc (clock_reads w) < clock_reads w'
                  \<and> timestamp (p_metadata (pt_payload q)) = date_now env (clock_reads w)
                  \<and> p_createdAt (pt_payload q) = date_now env (Suc (clock_reads w))"
          using c q by simp
        then have "\<exists>n. clock_reads w \<le> n \<and> Suc n < clock_reads w'
                  \<and> timestamp (p_metadata (pt_payload q)) = date_now env n
                  \<and> p_createdAt (pt_payload q) = date_now env (Suc n)" ..
        moreover from q have "userId (p_metadata (pt_payload q)) = userId ctx" by simp
        ultimately show ?thesis by simp
      next
        assume "q \<in> set (points w)"
        then show ?thesis by auto
      qed
    qed
  qed
next
  case UPDATE
  show ?thesis
  proof (cases "truthy (a_id a)")
    case False
    with assms UPDATE show ?thesis by (auto simp: applyMemoryAction_def)
  next
    case True
    from assms UPDATE True have c: "clock_reads w' = Suc (clock_reads w)"
      by (auto simp: applyMemoryAction_def updateMemory_def Date_now_def embedQuery_def
          sent_def Let_def split: prod.splits sum.splits option.splits if_splits)
    let ?pp = "\<lparr> pp_updatedAt = date_now env (clock_reads w),
                 pp_content = (if a_text a = [] then None else Some (a_text a)),
                 pp_vector = (if a_text a = [] then None else Some (embed_model env (a_text a))),
                 pp_metadata = None \<rparr>"
    from assms UPDATE True
    have "points w' = points w \<or> points w' = qdrant_setPayload (the (a_id a)) ?pp (points w)"
      by (auto simp: applyMemoryAction_def updateMemory_def Date_now_def embedQuery_def
          sent_def Let_def split: prod.splits sum.splits option.splits if_splits)
    then have "\<forall>q\<in>set (points w'). \<exists>q0\<in>set (points w). pt_id q0 = pt_id q
              \<and> p_metadata (pt_payload q0) = p_metadata (pt_payload q)
              \<and> p_createdAt (pt_payload q0) = p_createdAt (pt_payload q)"
    proof
      assume "points w' = points w"
      then show ?thesis by auto
    next
      assume pp: "points w' = qdrant_setPayload (the (a_id a)) ?pp (points w)"
      show ?thesis
      proof
        fix q assume "q \<in> set (points w')"
        with pp qdrant_setPayload_member [of q "the (a_id a)" ?pp "points w"]
        obtain q0 where "q0 \<in> set (points w)" "pt_id q0 = pt_id q"
          "q = q0 \<or> pt_payload q = merge_payload ?pp (pt_payload q0)" by auto
        then show "\<exists>q0\<in>set (points w). pt_id q0 = pt_id q
              \<and> p_metadata (pt_payload q0) = p_metadata (pt_payload q)
              \<and> p_createdAt (pt_payload q0) = p_createdAt (pt_payload q)"
          by (auto simp: merge_payload_def)
      qed
    qed
    with c show ?thesis by auto
  qed
next
  case DELETE
  from assms DELETE have "clock_reads w' = clock_reads w \<and> set (points w') \<subseteq> set (points w)"
    by (auto simp: applyMemoryAction_def deleteMemory_def qdrant_delete_def Let_def
        split: if_splits)
  then show ?thesis by auto
next
  case UNCHANGED
  with assms show ?thesis by (auto simp: applyMemoryAction_def)
qed

lemma applyMemoryActions_stamps:
  "applyMemoryActions env acts fe ctx w = (r, w') \<Longrightarrow>
     clock_reads w \<le> clock_reads w'
    \<and> (\<forall>q\<in>set (points w').
          (\<exists>q0\<in>set (points w). pt_id q0 = pt_id q
              \<and> p_metadata (pt_payload q0) = p_metadata (pt_payload q)
              \<and> p_createdAt (pt_payload q0) = p_createdAt (pt_payload q))
        \<or> (userId (p_metadata (pt_payload q)) = userId ctx
            \<and> (\<exists>n. clock_reads w \<le> n \<and> Suc n < clock_reads w'
                  \<and> timestamp (p_metadata (pt_payload q)) = date_now env n
                  \<and> p_createdAt (pt_payload q) = date_now env (Suc n))))"
proof (induction acts arbitrary: w)
  case Nil
  then show ?case by auto
next
  case (Cons a acts)
  obtain r1 w1 where s: "applyMemoryAction env a fe ctx w = (r1, w1)"
    by (cases "applyMemoryAction env a fe ctx w")
  note one = applyMemoryAction_stamps [OF s]
  show ?case
  proof (cases r1)
    case (Inl err)
    with Cons.prems s have "w' = w1" by simp
    with one show ?thesis by simp
  next
    case (Inr u)
    with Cons.prems s have "applyMemoryActions env acts fe ctx w1 = (r, w')" by simp
    note rest = Cons.IH [OF this]
    show ?thesis
    proof (intro conjI ballI)
      from one rest show "clock_reads w \<le> clock_reads w'" by simp
    next
      fix q assume q: "q \<in> set (points w')"
      from rest q consider
        (old) q1 where "q1 \<in> set (points w1)" "pt_id q1 = pt_id q"
            "p_metadata (pt_payload q1) = p_metadata (pt_payload q)"
            "p_createdAt (pt_payload q1) = p_createdAt (pt_payload q)"
      | (new) n where "userId (p_metadata (pt_payload q)) = userId ctx"
            "clock_reads w1 \<le> n" "Suc n < clock_reads w'"
            "timestamp (p_metadata (pt_payload q)) = date_now env n"
            "p_createdAt (pt_payload q) = date_now env (Suc n)"
        by blast
      then show "(\<exists>q0\<in>set (points w). pt_id q0 = pt_id q
              \<and> p_metadata (pt_payload q0) = p_metadata (pt_payload q)
              \<and> p_createdAt (pt_payload q0) = p_createdAt (pt_payload q))
        \<or> (userId (p_metadata (pt_payload q)) = userId ctx
            \<and> (\<exists>n. clock_reads w \<le> n \<and> Suc n < clock_reads w'
                  \<and> timestamp (p_metadata (pt_payload q)) = date_now env n
                  \<and> p_createdAt (pt_payload q) = date_now env (Suc n)))"
      proof cases
        case new
        from new(2) one have "clock_reads w \<le> n" by simp
        with new show ?thesis by blast
      next
        case old
        from one old(1) consider
          (older) q0 where "q0 \<in> set (points w)" "pt_id q0 = pt_id q1"
            "p_metadata (pt_payload q0) = p_metadata (pt_payload q1)"
            "p_createdAt (pt_payload q0) = p_createdAt (pt_payload q1)"
        | (fresh) n where "userId (p_metadata (pt_payload q1)) = userId ctx"
            "clock_reads w \<le> n" "Suc n < clock_reads w1"
            "timestamp (p_metadata (pt_payload q1)) = date_now env n"
            "p_createdAt (pt_payload q1) = date_now env (Suc n)"
          by blast
        then show ?thesis
        proof cases
          case older
          with old show ?thesis by force
        next
          case fresh
          from fresh(3) rest have "Suc n < clock_reads w'" by simp
          with fresh old show ?thesis by force
        qed
      qed
    qed
  qed
qed

lemma add_stamps:
  assumes "add env input ctx w = (r, w')"
  shows "\<forall>q\<in>set (points w').
          (\<exists>q0\<in>set (points w). pt_id q0 = pt_id q
              \<and> p_metadata (pt_payload q0) = p_metadata (pt_payload q)
              \<and> p_createdAt (pt_payload q0) = p_createdAt (pt_payload q))
        \<or> (userId (p_metadata (pt_payload q)) = userId ctx
            \<and> (\<exists>n. clock_reads w \<le> n \<and> Suc n < clock_reads w'
                  \<and> timestamp (p_metadata (pt_payload q)) = date_now env n
                  \<and> p_createdAt (pt_payload q) = date_now env (Suc n)))"
proof -
  have same: ?thesis if "points w' = points w"
    using that by auto
  show ?thesis
  proof (cases "llm_facts env input")
    case None
    with assms have "w' = w" by (simp add: add_def extractFacts_def)
    then have "points w' = points w" by simp
    then show ?thesis by (rule same)
  next
    case (Some facts)
    obtain r1 w1 where e: "embedFacts env facts Map.empty w = (r1, w1)"
      by (cases "embedFacts env facts Map.empty w")
    note f1 = embedFacts_frame [OF e] embedFacts_counters [OF e]
    show ?thesis
    proof (cases r1)
      case (Inl err)
      with assms Some e have "w' = w1" by (simp add: add_def extractFacts_def)
      with f1 have "points w' = points w" by simp
      then show ?thesis by (rule same)
    next
      case (Inr fe)
      obtain r2 w2 where s: "findSimilarMemories env facts (userId ctx) w1 = (r2, w2)"
        by (cases "findSimilarMemories env facts (userId ctx) w1")
      note f2 = findSimilarMemories_frame [OF s] findSimilarMemories_counters [OF s]
      show ?thesis
      proof (cases r2)
        case (Inl err)
        with assms Some e \<open>r1 = Inr fe\<close> s have "w' = w2"
          by (simp add: add_def extractFacts_def)
        with f1 f2 have "points w' = points w" by simp
        then show ?thesis by (rule same)
      next
        case (Inr olds)
        show ?thesis
        proof (cases "llm_actions env (formattedMemories olds) facts")
          case None
          with assms Some e \<open>r1 = Inr fe\<close> s Inr have "w' = w2"
            by (simp add: add_def extractFacts_def generateConsolidationActions_def)
          with f1 f2 have "points w' = points w" by simp
        then show ?thesis by (rule same)
        next
          case (Some acts)
          with assms \<open>llm_facts env input = Some facts\<close> e \<open>r1 = Inr fe\<close> s Inr
          have "applyMemoryActions env acts fe ctx w2 = (r, w')"
            by (simp add: add_def extractFacts_def generateConsolidationActions_def)
          from applyMemoryActions_stamps [OF this] f1 f2 show ?thesis by simp
        qed
      qed
    qed
  qed
qed

subsection \<open>A whole call of add, step by step\<close>



lemma add_at_action:
  assumes "llm_facts env input = Some facts"
    and "embedFacts env facts Map.empty w = (Inr fe, w1)"
    and "findSimilarMemories env facts (userId ctx) w1 = (Inr olds, w2)"
    and "llm_actions env (formattedMemories olds) facts = Some acts"
    and "i < length acts"
    and "applyMemoryActions env (take i acts) fe ctx w2 = (Inr (), wi)"
  shows "add env input ctx w
     = (case applyMemoryAction env (acts ! i) fe ctx wi of
          (Inl e, w') \<Rightarrow> (Inl e, w')
        | (Inr _, w') \<Rightarrow> applyMemoryActions env (drop (Suc i) acts) fe ctx w')"
proof -
  from assms(5) have "acts = take i acts @ (acts ! i) # drop (Suc i) acts"
    by (simp add: id_take_nth_drop)
  then have "applyMemoryActions env acts fe ctx w2
      = applyMemoryActions env (take i acts @ (acts ! i) # drop (Suc i) acts) fe ctx w2"
    by simp
  also have "\<dots> = applyMemoryActions env ((acts ! i) # drop (Suc i) acts) fe ctx wi"
    using assms(6) by (simp add: applyMemoryActions_append)
  finally show ?thesis
    using add_steps [OF assms(1-4)] by simp
qed

subsection \<open>Embedding calls of the apply step\<close>



subsection \<open>Vectors of the stored points of a whole call\<close>





subsection \<open>The date-range scan\<close>

lemma getMemoriesByDateRange_exact:
  "getMemoriesByDateRange env uid s e k w = (Inr ms, w') \<Longrightarrow>
     ms = map toMemory (take (case k of None \<Rightarrow> 50 | Some l \<Rightarrow> l)
            (filter (\<lambda>q. userId (p_metadata (pt_payload q)) = uid
                          \<and> s \<le> timestamp (p_metadata (pt_payload q))
                          \<and> timestamp (p_metadata (pt_payload q)) \<le> e) (points w)))"
  by (auto simp: getMemoriesByDateRange_def qdrant_scroll_def owned_by_def Let_def
      split: if_splits)


section \<open>The claims\<close>

subsection \<open>C1\<close>

text \<open>
  C1, as stated, fails: no validation takes place. With candidates of one user only, an
  \<open>UPDATE\<close> without identifier is skipped and a \<open>DELETE\<close> naming an identifier outside the
  candidate set is executed; the call returns normally and the collection has changed.
\<close>

theorem add_applies_unvalidated_actions:
  "fst (findSimilarMemories env_loose_ids [''likes tea''] ''alice'' world1) = Inr [toMemory tea]
   \<and> fst (add env_loose_ids ''likes tea'' alice world1) = Inr ()
   \<and> points world1 = [tea, coffee]
   \<and> points (snd (add env_loose_ids ''likes tea'' alice world1)) = [tea]"
proof -
  let ?w1 = "world1\<lparr> embed_log := [''likes tea''] \<rparr>"
  let ?w2 = "world1\<lparr> embed_log := [''likes tea'', ''likes tea''],
                       qdrant_log := [Search ''alice'' [1, 0] 5 (5 / 10)] \<rparr>"
  let ?acts = "[action UPDATE None ''likes jam'', action DELETE (Some ''b1'') ''likes tea'']"
  have c: "fst (findSimilarMemories env_loose_ids [''likes tea''] ''alice'' world1)
             = Inr [toMemory tea]"
    by (simp add: env_loose_ids_def memory_defs storage_defs example_defs enumerate_eq_zip upt_rec)
  have 1: "llm_facts env_loose_ids ''likes tea'' = Some [''likes tea'']"
    by (simp add: env_loose_ids_def env0_def)
  have 2: "embedFacts env_loose_ids [''likes tea''] Map.empty world1
             = (Inr [''likes tea'' \<mapsto> [1, 0]], ?w1)"
    by (simp add: env_loose_ids_def storage_defs example_defs)
  have 3: "findSimilarMemories env_loose_ids [''likes tea''] (userId alice) ?w1
             = (Inr [toMemory tea], ?w2)"
    by (simp add: env_loose_ids_def memory_defs storage_defs example_defs enumerate_eq_zip upt_rec)
  have 4: "llm_actions env_loose_ids (formattedMemories [toMemory tea]) [''likes tea'']
             = Some ?acts"
    by (simp add: env_loose_ids_def env0_def)
  have 5: "fst (applyMemoryActions env_loose_ids ?acts [''likes tea'' \<mapsto> [1, 0]] alice ?w2)
             = Inr ()
           \<and> points (snd (applyMemoryActions env_loose_ids ?acts [''likes tea'' \<mapsto> [1, 0]]
                            alice ?w2)) = [tea]"
    by (simp add: env_loose_ids_def memory_defs storage_defs example_defs)
  have p: "points world1 = [tea, coffee]"
    by (simp add: example_defs)
  from add_steps [OF 1 2 3 4] 5 c p show ?thesis
    by simp
qed

text \<open>
  C1, amended. The Applier does not consult the candidate set. An \<open>UPDATE\<close> or \<open>DELETE\<close>
  action that carries no identifier (or an empty one) is skipped without a storage call
  and without an error: when every action of the Resolver's answer is of that kind, \<open>add\<close>
  returns normally and the collection is unchanged. An \<open>UPDATE\<close> or \<open>DELETE\<close> action that
  carries a non-empty identifier is executed as the storage update or delete of that
  identifier, whether or not the identifier is among the candidates.
\<close>

theorem actions_not_validated:
  "(llm_facts env input = Some facts
      \<and> embedFacts env facts Map.empty w = (Inr fe, w1)
      \<and> findSimilarMemories env facts (userId ctx) w1 = (Inr olds, w2)
      \<and> llm_actions env (formattedMemories olds) facts = Some acts
      \<and> (\<forall>a\<in>set acts. (a_type a = UPDATE \<or> a_type a = DELETE) \<and> \<not> truthy (a_id a))
    \<longrightarrow> add env input ctx w = (Inr (), w2) \<and> points w2 = points w)
   \<and> (a_type b = UPDATE \<and> a_id b = Some i \<and> i \<noteq> [] \<longrightarrow>
        applyMemoryAction env b fb ctx wb
          = updateMemory env i \<lparr> u_content = Some (a_text b), u_metadata = None \<rparr> wb)
   \<and> (a_type b = DELETE \<and> a_id b = Some i \<and> i \<noteq> [] \<longrightarrow>
        applyMemoryAction env b fb ctx wb = deleteMemory env i wb)"
proof (intro conjI impI)
  assume a: "llm_facts env input = Some facts
      \<and> embedFacts env facts Map.empty w = (Inr fe, w1)
      \<and> findSimilarMemories env facts (userId ctx) w1 = (Inr olds, w2)
      \<and> llm_actions env (formattedMemories olds) facts = Some acts
      \<and> (\<forall>a\<in>set acts. (a_type a = UPDATE \<or> a_type a = DELETE) \<and> \<not> truthy (a_id a))"
  then have "add env input ctx w = applyMemoryActions env acts fe ctx w2"
    using add_steps [of env input facts w fe w1 ctx olds w2 acts] by blast
  with a show "add env input ctx w = (Inr (), w2)"
    by (simp add: idless_actions_skipped)
  from a embedFacts_frame findSimilarMemories_frame show "points w2 = points w"
    by metis
qed (simp_all add: applyMemoryAction_def)

theorem actions_not_validated_witness:
  "fst (add env_idless ''likes tea'' alice world1) = Inr ()
   \<and> points (snd (add env_idless ''likes tea'' alice world1)) = points world1
   \<and> applyMemoryAction env0 (action DELETE (Some ''b1'') ''likes tea'') Map.empty alice world1
       = deleteMemory env0 ''b1'' world1
   \<and> applyMemoryAction env0 (action UPDATE (Some ''b1'') ''likes jam'') Map.empty alice world1
       = updateMemory env0 ''b1'' \<lparr> u_content = Some ''likes jam'', u_metadata = None \<rparr> world1"
proof -
  let ?e = "embedFacts env_idless [''likes tea''] Map.empty world1"
  let ?f = "findSimilarMemories env_idless [''likes tea''] (userId alice) (snd ?e)"
  let ?acts = "[action UPDATE None ''likes jam'', action DELETE (Some []) ''likes tea'']"
  let ?b = "action DELETE (Some ''b1'') ''likes tea''"
  have h1: "llm_facts env_idless ''likes tea'' = Some [''likes tea'']"
    by (simp add: env_idless_def env0_def)
  have h2: "?e = (Inr (projr (fst ?e)), snd ?e)"
    by (simp add: env_idless_def memory_defs storage_defs example_defs)
  have h3: "?f = (Inr (projr (fst ?f)), snd ?f)"
    by (simp add: env_idless_def memory_defs storage_defs example_defs)
  have h4: "llm_actions env_idless (formattedMemories (projr (fst ?f))) [''likes tea''] = Some ?acts"
    by (simp add: env_idless_def env0_def)
  have h5: "\<forall>a\<in>set ?acts. (a_type a = UPDATE \<or> a_type a = DELETE) \<and> \<not> truthy (a_id a)"
    by (simp add: action_def)
  have h6: "a_type ?b = DELETE \<and> a_id ?b = Some ''b1'' \<and> ''b1'' \<noteq> []"
    by (simp add: action_def)
  note inst = actions_not_validated [where env = env_idless and input = "''likes tea''"
      and facts = "[''likes tea'']" and w = world1 and fe = "projr (fst ?e)" and ?w1.0 = "snd ?e"
      and ctx = alice and olds = "projr (fst ?f)" and ?w2.0 = "snd ?f" and acts = ?acts]
  from inst h1 h2 h3 h4 h5
  have 1: "add env_idless ''likes tea'' alice world1 = (Inr (), snd ?f) \<and> points (snd ?f) = points world1"
    by blast
  from actions_not_validated [where env = env0 and b = ?b and i = "''b1''" and fb = Map.empty
      and ctx = alice and wb = world1] h6
  have 2: "applyMemoryAction env0 ?b Map.empty alice world1 = deleteMemory env0 ''b1'' world1"
    by blast
  let ?u = "action UPDATE (Some ''b1'') ''likes jam''"
  have h7: "a_type ?u = UPDATE \<and> a_id ?u = Some ''b1'' \<and> ''b1'' \<noteq> []"
    by (simp add: action_def)
  from actions_not_validated [where env = env0 and b = ?u and i = "''b1''" and fb = Map.empty
      and ctx = alice and wb = world1] h7
  have 3: "applyMemoryAction env0 ?u Map.empty alice world1
             = updateMemory env0 ''b1'' \<lparr> u_content = Some (a_text ?u), u_metadata = None \<rparr> world1"
    by blast
  from 1 2 3 show ?thesis by (simp add: action_def)
qed

subsection \<open>C2\<close>

text \<open>
  C2, as stated, fails for the point-identifier operations: they take no user identifier,
  so a caller acting for one user reads, rewrites and deletes the Memory of another user
  by naming its identifier.
\<close>

theorem point_operations_cross_users:
  "userId alice \<noteq> userId bob
   \<and> userId (p_metadata (pt_payload coffee)) = userId bob
   \<and> points world1 = [tea, coffee]
   \<and> fst (get env0 ''b1'' world1) = Some (toMemory coffee)
   \<and> points (snd (update env0 ''b1'' ''hates coffee'' world1))
       = [tea, coffee\<lparr> pt_payload := (pt_payload coffee)\<lparr> p_content := ''hates coffee'',
                          p_updatedAt := 1000, p_vector := Some [0, 1] \<rparr> \<rparr>]
   \<and> points (snd (delete env0 ''b1'' world1)) = [tea]"
  by (simp add: memory_defs storage_defs example_defs)

text \<open>
  C2, amended. For every state of the store, the similarity search (\<open>searchMemories\<close>, and
  \<open>search\<close> on top of it) and the date-range scan performed for a user return only
  Memories owned by that user, hence none owned by a different user, and leave the
  collection as it is, whether they succeed or fail. (The point-identifier \<open>get\<close>,
  \<open>update\<close> and \<open>delete\<close> are not scoped by user.)
\<close>

theorem reads_scoped_by_user:
  "(searchMemories env params w = (Inr ms, w') \<longrightarrow>
       (\<forall>m\<in>set ms. userId (metadata m) = sp_userId params))
   \<and> points (snd (searchMemories env params w)) = points w
   \<and> (search env query ctx ws = (Inr mss, ws') \<longrightarrow>
       (\<forall>m\<in>set mss. userId (metadata m) = userId ctx))
   \<and> points (snd (search env query ctx ws)) = points ws
   \<and> (getMemoriesByDateRange env uid s e k wr = (Inr msr, wr') \<longrightarrow>
       (\<forall>m\<in>set msr. userId (metadata m) = uid))
   \<and> points (snd (getMemoriesByDateRange env uid s e k wr)) = points wr"
proof (intro conjI impI ballI)
  fix m assume "searchMemories env params w = (Inr ms, w')" "m \<in> set ms"
  then show "userId (metadata m) = sp_userId params"
    by (rule searchMemories_owner)
next
  fix m assume "search env query ctx ws = (Inr mss, ws')" "m \<in> set mss"
  then show "userId (metadata m) = userId ctx"
    unfolding search_def by (auto dest: searchMemories_owner)
next
  fix m assume "getMemoriesByDateRange env uid s e k wr = (Inr msr, wr')" "m \<in> set msr"
  then show "userId (metadata m) = uid"
    by (rule getMemoriesByDateRange_owner)
qed (simp_all add: search_def searchMemories_frame getMemoriesByDateRange_frame)

theorem reads_scoped_by_user_witness:
  "map memory_id (projr (fst (search env0 ''likes tea'' alice world1))) = [''a1'']
   \<and> map (\<lambda>m. userId (metadata m)) (projr (fst (search env0 ''likes tea'' alice world1)))
       = [''alice'']
   \<and> map memory_id (projr (fst (getMemoriesByDateRange env0 ''bob'' 0 100 None world1))) = [''b1'']
   \<and> map (\<lambda>m. userId (metadata m))
        (projr (fst (getMemoriesByDateRange env0 ''bob'' 0 100 None world1))) = [''bob'']"
proof -
  let ?s = "search env0 ''likes tea'' alice world1"
  let ?g = "getMemoriesByDateRange env0 ''bob'' 0 100 None world1"
  have hs: "?s = (Inr (projr (fst ?s)), snd ?s)"
    by (simp add: memory_defs storage_defs example_defs)
  have hg: "?g = (Inr (projr (fst ?g)), snd ?g)"
    by (simp add: memory_defs storage_defs example_defs)
  have ids: "map memory_id (projr (fst ?s)) = [''a1'']" "map memory_id (projr (fst ?g)) = [''b1'']"
    by (simp_all add: memory_defs storage_defs example_defs)
  note inst = reads_scoped_by_user [where env = env0 and query = "''likes tea''" and ctx = alice
      and params = "\<lparr> sp_userId = userId alice, sp_query = Some ''likes tea'', sp_vector = None,
                      sp_limit = Some 10, sp_threshold = Some (3 / 10) \<rparr>"
      and w = world1 and ms = "projr (fst ?s)" and w' = "snd ?s"
      and ws = world1 and mss = "projr (fst ?s)" and ws' = "snd ?s"
      and uid = "''bob''" and s = 0 and e = 100 and k = None and wr = world1
      and msr = "projr (fst ?g)" and wr' = "snd ?g"]
  from hs have hp: "searchMemories env0
        \<lparr> sp_userId = userId alice, sp_query = Some ''likes tea'', sp_vector = None,
          sp_limit = Some 10, sp_threshold = Some (3 / 10) \<rparr> world1
        = (Inr (projr (fst ?s)), snd ?s)"
    by (simp add: search_def)
  from inst hp hs have a: "\<forall>m\<in>set (projr (fst ?s)). userId (metadata m) = userId alice"
    by simp
  from inst hg have b: "\<forall>m\<in>set (projr (fst ?g)). userId (metadata m) = ''bob''"
    by blast
  from ids(1) obtain x where x: "projr (fst ?s) = [x]" by auto
  from ids(2) obtain y where y: "projr (fst ?g) = [y]" by auto
  from a b x y ids show ?thesis
    by (simp add: alice_def)
qed

subsection \<open>C3\<close>

text \<open>
  C3 on the code. An applied \<open>UPDATE\<close> naming the stored Memory \<open>a1\<close> with the fact text
  \<open>likes jam\<close> replaces the content, bumps \<open>updatedAt\<close> and keeps the identifier, but the
  new embedding is written into the payload under the key \<open>vector\<close>: the vector of the
  point, which similarity search compares, is still the embedding of the old content.
  Afterwards a search for the old text finds the Memory with the new content.
\<close>

theorem UPDATE_leaves_stale_vector:
  "fst (applyMemoryActions env0 [action UPDATE (Some ''a1'') ''likes jam''] Map.empty alice world1)
     = Inr ()
   \<and> map (\<lambda>q. (pt_id q, p_content (pt_payload q), pt_vector q, p_vector (pt_payload q),
               p_updatedAt (pt_payload q)))
        (points (snd (applyMemoryActions env0 [action UPDATE (Some ''a1'') ''likes jam'']
                        Map.empty alice world1)))
     = [(''a1'', ''likes jam'', [1, 0], Some [0, 1], 1000),
        (''b1'', ''likes coffee'', [0, 1], None, 20)]
   \<and> embed_model env0 ''likes jam'' = [0, 1]
   \<and> embed_model env0 ''likes tea'' = [1, 0]
   \<and> map content (projr (fst (search env0 ''likes tea'' alice
        (snd (applyMemoryActions env0 [action UPDATE (Some ''a1'') ''likes jam'']
                Map.empty alice world1))))) = [''likes jam'']
   \<and> projr (fst (search env0 ''likes jam'' alice
        (snd (applyMemoryActions env0 [action UPDATE (Some ''a1'') ''likes jam'']
                Map.empty alice world1)))) = []"
proof -
  let ?w = "snd (applyMemoryActions env0 [action UPDATE (Some ''a1'') ''likes jam'']
                   Map.empty alice world1)"
  have w: "applyMemoryActions env0 [action UPDATE (Some ''a1'') ''likes jam''] Map.empty alice world1
        = (Inr (), \<lparr> points = [tea\<lparr> pt_payload := (pt_payload tea)\<lparr> p_content := ''likes jam'',
                        p_updatedAt := 1000, p_vector := Some [0, 1] \<rparr> \<rparr>, coffee],
                     qdrant_log = [SetPayload ''a1'' \<lparr> pp_updatedAt = 1000,
                        pp_content = Some ''likes jam'', pp_vector = Some [0, 1],
                        pp_metadata = None \<rparr>],
                     embed_log = [''likes jam''], clock_reads = 1, uuids_drawn = 0 \<rparr>)"
    by (simp add: memory_defs storage_defs example_defs)
  show ?thesis
    unfolding w
    by (simp add: memory_defs storage_defs example_defs)
qed

subsection \<open>C4\<close>

text \<open>
  C4, as stated, fails: the Resolver returns the collaborator's answer unchecked, here no
  action for one fact.
\<close>

theorem resolver_action_count_unchecked:
  "generateConsolidationActions env_no_actions [] [''likes tea''] world0 = (Inr [], world0)
   \<and> length ([] :: MemoryAction list) \<noteq> length [''likes tea'']"
  by (simp add: env_no_actions_def memory_defs example_defs)

text \<open>
  C4, amended. For every candidate set and fact sequence, the Resolver hands the
  reasoning collaborator the (identifier, content) pairs of the candidates and the facts,
  and returns the action sequence of its answer unchanged, in the same order; it fails
  exactly when the collaborator fails. It does not compare the number of actions with
  the number of facts, and it touches nothing in the world; \<open>add\<close> then applies the
  returned sequence as it is.
\<close>

theorem generateConsolidationActions_answer:
  "(llm_actions env (map (\<lambda>m. (memory_id m, content m)) olds) facts = Some acts \<longrightarrow>
      generateConsolidationActions env olds facts w = (Inr acts, w))
   \<and> (llm_actions env (map (\<lambda>m. (memory_id m, content m)) olds) facts = None \<longrightarrow>
      generateConsolidationActions env olds facts w = (Inl OpenAIError, w))
   \<and> (llm_facts env input = Some facts
        \<and> embedFacts env facts Map.empty wi = (Inr fe, w1)
        \<and> findSimilarMemories env facts (userId ctx) w1 = (Inr olds, w2)
        \<and> llm_actions env (map (\<lambda>m. (memory_id m, content m)) olds) facts = Some acts
      \<longrightarrow> add env input ctx wi = applyMemoryActions env acts fe ctx w2)"
proof (intro conjI impI)
  assume "llm_actions env (map (\<lambda>m. (memory_id m, content m)) olds) facts = Some acts"
  then show "generateConsolidationActions env olds facts w = (Inr acts, w)"
    by (simp add: generateConsolidationActions_def formattedMemories_def)
next
  assume "llm_actions env (map (\<lambda>m. (memory_id m, content m)) olds) facts = None"
  then show "generateConsolidationActions env olds facts w = (Inl OpenAIError, w)"
    by (simp add: generateConsolidationActions_def formattedMemories_def)
next
  assume a: "llm_facts env input = Some facts
        \<and> embedFacts env facts Map.empty wi = (Inr fe, w1)
        \<and> findSimilarMemories env facts (userId ctx) w1 = (Inr olds, w2)
        \<and> llm_actions env (map (\<lambda>m. (memory_id m, content m)) olds) facts = Some acts"
  then have "llm_actions env (formattedMemories olds) facts = Some acts"
    by (simp add: formattedMemories_def)
  with a show "add env input ctx wi = applyMemoryActions env acts fe ctx w2"
    using add_steps [of env input facts wi fe w1 ctx olds w2 acts] by blast
qed

theorem generateConsolidationActions_answer_witness:
  "generateConsolidationActions env0 [toMemory tea] [''likes tea'', ''likes jam''] world1
     = (Inr [action ADD None ''likes tea'', action ADD None ''likes jam''], world1)
   \<and> generateConsolidationActions (env0\<lparr> llm_actions := (\<lambda>candidates facts. None) \<rparr>)
        [toMemory tea] [''likes tea''] world1 = (Inl OpenAIError, world1)
   \<and> add env_no_actions ''likes tea'' alice world0
     = (Inr (), world0\<lparr> embed_log := [''likes tea'', ''likes tea''],
                         qdrant_log := [Search ''alice'' [1, 0] 5 (5 / 10)] \<rparr>)"
proof -
  let ?none = "env0\<lparr> llm_actions := (\<lambda>candidates facts. None) \<rparr>"
  let ?w1 = "world0\<lparr> embed_log := [''likes tea''] \<rparr>"
  let ?w2 = "world0\<lparr> embed_log := [''likes tea'', ''likes tea''],
                       qdrant_log := [Search ''alice'' [1, 0] 5 (5 / 10)] \<rparr>"
  have h: "llm_actions env0 (map (\<lambda>m. (memory_id m, content m)) [toMemory tea])
             [''likes tea'', ''likes jam'']
           = Some [action ADD None ''likes tea'', action ADD None ''likes jam'']"
    by (simp add: env0_def)
  from generateConsolidationActions_answer [where env = env0 and olds = "[toMemory tea]"
      and facts = "[''likes tea'', ''likes jam'']"
      and acts = "[action ADD None ''likes tea'', action ADD None ''likes jam'']"
      and w = world1] h
  have 1: "generateConsolidationActions env0 [toMemory tea] [''likes tea'', ''likes jam''] world1
     = (Inr [action ADD None ''likes tea'', action ADD None ''likes jam''], world1)"
    by blast
  have n: "llm_actions ?none (map (\<lambda>m. (memory_id m, content m)) [toMemory tea]) [''likes tea'']
             = None"
    by simp
  from generateConsolidationActions_answer [where env = ?none and olds = "[toMemory tea]"
      and facts = "[''likes tea'']" and w = world1] n
  have 2: "generateConsolidationActions ?none [toMemory tea] [''likes tea''] world1
             = (Inl OpenAIError, world1)"
    by blast
  have a1: "llm_facts env_no_actions ''likes tea'' = Some [''likes tea'']"
    by (simp add: env_no_actions_def env0_def)
  have a2: "embedFacts env_no_actions [''likes tea''] Map.empty world0
              = (Inr [''likes tea'' \<mapsto> [1, 0]], ?w1)"
    by (simp add: env_no_actions_def storage_defs example_defs)
  have a3: "findSimilarMemories env_no_actions [''likes tea''] (userId alice) ?w1 = (Inr [], ?w2)"
    by (simp add: env_no_actions_def memory_defs storage_defs example_defs)
  have a4: "llm_actions env_no_actions (map (\<lambda>m. (memory_id m, content m)) []) [''likes tea'']
              = Some []"
    by (simp add: env_no_actions_def env0_def)
  from generateConsolidationActions_answer [where env = env_no_actions and olds = "[]"
      and facts = "[''likes tea'']" and acts = "[]" and input = "''likes tea''"
      and wi = world0 and fe = "[''likes tea'' \<mapsto> [1, 0]]" and ?w1.0 = ?w1 and ctx = alice
      and ?w2.0 = ?w2] a1 a2 a3 a4
  have 3: "add env_no_actions ''likes tea'' alice world0
             = applyMemoryActions env_no_actions [] [''likes tea'' \<mapsto> [1, 0]] alice ?w2"
    by blast
  from 1 2 3 show ?thesis by simp
qed

subsection \<open>C5\<close>




subsection \<open>C6\<close>

text \<open>
  C6. The Applier processes the actions in the order of the sequence: once the first \<open>i\<close>
  actions have been applied, the action at index \<open>i\<close> is applied to the world they left.
  When it succeeds, the call goes on with the actions after it. When its storage call
  fails, the whole call fails with that error in the world that the failing action left:
  no action after index \<open>i\<close> is executed, whatever those actions are, and the collection
  is the one that the first \<open>i\<close> actions produced.
\<close>

theorem applyMemoryActions_fail_fast:
  assumes "i < length actions"
    and "applyMemoryActions env (take i actions) fe ctx w = (Inr (), w1)"
  shows "(applyMemoryAction env (actions ! i) fe ctx w1 = (Inr u, w2) \<longrightarrow>
            applyMemoryActions env actions fe ctx w
              = applyMemoryActions env (drop (Suc i) actions) fe ctx w2)
       \<and> (applyMemoryAction env (actions ! i) fe ctx w1 = (Inl e, w3) \<longrightarrow>
            applyMemoryActions env actions fe ctx w = (Inl e, w3) \<and> points w3 = points w1)"
proof -
  from assms(1) have "actions = take i actions @ (actions ! i) # drop (Suc i) actions"
    by (simp add: id_take_nth_drop)
  then have "applyMemoryActions env actions fe ctx w
      = applyMemoryActions env (take i actions @ (actions ! i) # drop (Suc i) actions) fe ctx w"
    by simp
  also have "\<dots> = applyMemoryActions env ((actions ! i) # drop (Suc i) actions) fe ctx w1"
    using assms(2) by (simp add: applyMemoryActions_append)
  finally have step: "applyMemoryActions env actions fe ctx w
      = (case applyMemoryAction env (actions ! i) fe ctx w1 of
           (Inl e, w') \<Rightarrow> (Inl e, w')
         | (Inr _, w') \<Rightarrow> applyMemoryActions env (drop (Suc i) actions) fe ctx w')"
    by simp
  show ?thesis
  proof (intro conjI impI)
    assume "applyMemoryAction env (actions ! i) fe ctx w1 = (Inr u, w2)"
    with step show "applyMemoryActions env actions fe ctx w
              = applyMemoryActions env (drop (Suc i) actions) fe ctx w2"
      by simp
  next
    assume f: "applyMemoryAction env (actions ! i) fe ctx w1 = (Inl e, w3)"
    with step show "applyMemoryActions env actions fe ctx w = (Inl e, w3)"
      by simp
    from f show "points w3 = points w1"
      by (rule applyMemoryAction_failure_frame)
  qed
qed

theorem applyMemoryActions_fail_fast_witness:
  "fst (applyMemoryActions env_second_request_fails three_actions Map.empty alice world0)
     = Inl (Failed ''Failed to delete memory'' QdrantError)
   \<and> points (snd (applyMemoryActions env_second_request_fails three_actions Map.empty alice
                    world0))
     = points (snd (applyMemoryActions env_second_request_fails (take 1 three_actions)
                      Map.empty alice world0))
   \<and> length (qdrant_log (snd (applyMemoryActions env_second_request_fails three_actions
                               Map.empty alice world0))) = 2
   \<and> applyMemoryActions env_second_request_fails three_actions Map.empty alice world0
     = applyMemoryActions env_second_request_fails (drop 1 three_actions) Map.empty alice
         (snd (applyMemoryAction env_second_request_fails (three_actions ! 0) Map.empty alice
                 world0))"
proof -
  let ?w1 = "snd (applyMemoryActions env_second_request_fails (take 1 three_actions)
                    Map.empty alice world0)"
  let ?w3 = "snd (applyMemoryAction env_second_request_fails (three_actions ! 1)
                    Map.empty alice ?w1)"
  let ?w2 = "snd (applyMemoryAction env_second_request_fails (three_actions ! 0)
                    Map.empty alice world0)"
  have h1: "1 < length three_actions" and h0: "0 < length three_actions"
    by (simp_all add: three_actions_def)
  have h2: "applyMemoryActions env_second_request_fails (take 1 three_actions)
              Map.empty alice world0 = (Inr (), ?w1)"
    by (simp add: three_actions_def env_second_request_fails_def memory_defs storage_defs
        example_defs)
  have h3: "applyMemoryAction env_second_request_fails (three_actions ! 1) Map.empty alice ?w1
              = (Inl (Failed ''Failed to delete memory'' QdrantError), ?w3)"
    by (simp add: three_actions_def env_second_request_fails_def memory_defs storage_defs
        example_defs)
  have l: "length (qdrant_log ?w3) = 2"
    by (simp add: three_actions_def env_second_request_fails_def memory_defs storage_defs
        example_defs)
  from applyMemoryActions_fail_fast [OF h1 h2, where e = "Failed ''Failed to delete memory'' QdrantError"
      and ?w3.0 = ?w3] h3
  have a: "applyMemoryActions env_second_request_fails three_actions Map.empty alice world0
             = (Inl (Failed ''Failed to delete memory'' QdrantError), ?w3)
           \<and> points ?w3 = points ?w1"
    by blast
  have g2: "applyMemoryActions env_second_request_fails (take 0 three_actions)
              Map.empty alice world0 = (Inr (), world0)"
    by simp
  have g3: "applyMemoryAction env_second_request_fails (three_actions ! 0) Map.empty alice world0
              = (Inr (), ?w2)"
    by (simp add: three_actions_def env_second_request_fails_def memory_defs storage_defs
        example_defs)
  from applyMemoryActions_fail_fast [OF h0 g2, where u = "()" and ?w2.0 = ?w2] g3
  have b: "applyMemoryActions env_second_request_fails three_actions Map.empty alice world0
     = applyMemoryActions env_second_request_fails (drop (Suc 0) three_actions) Map.empty alice ?w2"
    by blast
  from a l b show ?thesis by simp
qed

subsection \<open>C7\<close>

text \<open>
  C7. When the Retriever returns, it has sent exactly one search request per fact, in
  fact order, each with the embedding of the fact, limit 5, score threshold 0.5 and the
  user's identifier; its result is the concatenation of the per-fact results with
  duplicates by identifier removed, so it has the identifiers of the union of the per-fact
  results, no identifier twice, and only memories of that user. The collection is not
  changed.
\<close>

theorem findSimilarMemories_candidates:
  assumes "findSimilarMemories env facts uid w = (Inr ms, w')"
  shows "qdrant_log w' = qdrant_log w @ map (\<lambda>f. Search uid (embed_model env f) 5 (5 / 10)) facts
     \<and> ms = removeDuplicates (concat (map (\<lambda>f. map toMemory
               (qdrant_search (similarity env) uid (embed_model env f) 5 (5 / 10) (points w))) facts))
     \<and> memory_id ` set ms = (\<Union>f\<in>set facts. memory_id ` toMemory `
               set (qdrant_search (similarity env) uid (embed_model env f) 5 (5 / 10) (points w)))
     \<and> distinct (map memory_id ms)
     \<and> (\<forall>m\<in>set ms. userId (metadata m) = uid)
     \<and> points w' = points w"
proof -
  let ?hits = "\<lambda>f. map toMemory
     (qdrant_search (similarity env) uid (embed_model env f) 5 (5 / 10) (points w))"
  from assms obtain all where c: "collectSimilar env uid facts [] w = (Inr all, w')"
    and ms: "ms = removeDuplicates all"
    by (auto simp: findSimilarMemories_def split: prod.splits sum.splits)
  from collectSimilar_result [OF c]
  have all: "all = concat (map ?hits facts)"
    and lg: "qdrant_log w' = qdrant_log w @ map (\<lambda>f. Search uid (embed_model env f) 5 (5 / 10)) facts"
    and pts: "points w' = points w"
    by simp_all
  have ids: "memory_id ` set ms = (\<Union>f\<in>set facts. memory_id ` set (?hits f))"
    unfolding ms removeDuplicates_ids all by auto
  have own: "\<forall>m\<in>set ms. userId (metadata m) = uid"
  proof
    fix m assume "m \<in> set ms"
    with ms removeDuplicates_subset have "m \<in> set all" by blast
    with all obtain f q where "q \<in> set (qdrant_search (similarity env) uid (embed_model env f) 5 (5 / 10) (points w))"
      and "m = toMemory q" by auto
    then show "userId (metadata m) = uid"
      using qdrant_search_owned toMemory_owner by blast
  qed
  from lg ms all ids own pts removeDuplicates_distinct [of all] show ?thesis
    by (simp add: image_image)
qed

theorem findSimilarMemories_candidates_witness:
  "map memory_id (projr (fst (findSimilarMemories env0 [''likes tea'', ''likes tea''] ''alice'' world1)))
     = [''a1'']
   \<and> qdrant_log (snd (findSimilarMemories env0 [''likes tea'', ''likes tea''] ''alice'' world1))
     = [Search ''alice'' [1, 0] 5 (5 / 10), Search ''alice'' [1, 0] 5 (5 / 10)]
   \<and> distinct (map memory_id
        (projr (fst (findSimilarMemories env0 [''likes tea'', ''likes tea''] ''alice'' world1))))"
proof -
  let ?r = "findSimilarMemories env0 [''likes tea'', ''likes tea''] ''alice'' world1"
  have v: "map memory_id (projr (fst ?r)) = [''a1'']"
    by (simp add: memory_defs storage_defs example_defs enumerate_eq_zip upt_rec)
  have h: "?r = (Inr (projr (fst ?r)), snd ?r)"
    by (simp add: memory_defs storage_defs example_defs enumerate_eq_zip upt_rec)
  have e: "embed_model env0 ''likes tea'' = [1, 0]" "qdrant_log world1 = []"
    by (simp_all add: example_defs)
  from findSimilarMemories_candidates [OF h] v e show ?thesis
    by simp
qed

subsection \<open>C8\<close>




subsection \<open>C9\<close>

text \<open>
  C9, as stated, fails: when the retrieve request is rejected, \<open>getMemory\<close> returns the
  absent result although a Memory with the identifier exists.
\<close>

theorem getMemory_failure_reported_as_absence:
  "''a1'' \<in> pt_id ` set (points world1)
   \<and> fst (get env_first_request_fails ''a1'' world1) = None"
  by (simp add: env_first_request_fails_def memory_defs storage_defs example_defs)

text \<open>
  C9, amended. The point-identifier retrieval never fails with an error (its result is an
  option). It returns the absent result exactly when the retrieve request is rejected by
  the storage collaborator or no Memory with the identifier exists; otherwise it returns
  a stored Memory with that identifier. It does not change the collection.
\<close>

theorem get_absent_iff:
  "(fst (get env i w) = None \<longleftrightarrow> \<not> request_ok env w \<or> i \<notin> pt_id ` set (points w))
   \<and> (\<forall>m. fst (get env i w) = Some m \<longrightarrow> memory_id m = i \<and> m \<in> toMemory ` set (points w))
   \<and> points (snd (get env i w)) = points w"
  using getMemory_None [of env i w] getMemory_Some [of env i w] getMemory_frame [of env i w]
  by (simp add: get_def)

theorem get_absent_iff_witness:
  "fst (get env0 ''zz'' world1) = None
   \<and> request_ok env0 world1
   \<and> ''zz'' \<notin> pt_id ` set (points world1)
   \<and> fst (get env0 ''b1'' world1) = Some (toMemory coffee)"
proof -
  have ok: "request_ok env0 world1" and absent: "''zz'' \<notin> pt_id ` set (points world1)"
    by (simp_all add: storage_defs example_defs)
  from get_absent_iff [of env0 "''zz''" world1] ok absent
  have 1: "fst (get env0 ''zz'' world1) = None" by simp
  have "''b1'' \<in> pt_id ` set (points world1)"
    by (simp add: example_defs)
  with get_absent_iff [of env0 "''b1''" world1] ok
  obtain m where m: "fst (get env0 ''b1'' world1) = Some m" "memory_id m = ''b1''"
      "m \<in> toMemory ` set (points world1)"
    by (cases "fst (get env0 ''b1'' world1)") auto
  from m(2,3) have "m = toMemory coffee"
    by (auto simp: example_defs toMemory_def)
  with 1 m(1) ok absent show ?thesis by simp
qed

subsection \<open>C10\<close>

text \<open>
  C10. \<open>add\<close> does not depend on the timestamp of the context it is given. Whatever the
  outcome of a call of \<open>add\<close>, every point of the collection afterwards either continues
  a point that was there before the call (same identifier, metadata and creation time)
  or carries the user of the context and, as \<open>metadata.timestamp\<close>, a reading of
  \<open>Date.now()\<close> taken during the call, namely the reading just before the one that
  \<open>addMemory\<close> takes for \<open>createdAt\<close>. More precisely, when the call has reached the
  action at index \<open>i\<close> of the Resolver's answer and that action is a successful \<open>ADD\<close>, it
  stores the point whose \<open>metadata.timestamp\<close> is the reading of \<open>Date.now()\<close> at that
  moment, and the call goes on from there. The date-range scan returns the stored points
  of the user whose stored \<open>metadata.timestamp\<close> lies within the bounds (the first
  \<open>limit\<close> of them; all of them and no others when they are at most \<open>limit\<close>).
\<close>

theorem ADD_timestamp_is_apply_time:
  "add env input (ctx\<lparr>timestamp := t\<rparr>) w = add env input ctx w
   \<and> (add env input ctx w = (r, w') \<longrightarrow>
        (\<forall>q\<in>set (points w').
            (\<exists>q0\<in>set (points w). pt_id q0 = pt_id q
                \<and> p_metadata (pt_payload q0) = p_metadata (pt_payload q)
                \<and> p_createdAt (pt_payload q0) = p_createdAt (pt_payload q))
          \<or> (userId (p_metadata (pt_payload q)) = userId ctx
              \<and> (\<exists>n. clock_reads w \<le> n \<and> Suc n < clock_reads w'
                    \<and> timestamp (p_metadata (pt_payload q)) = date_now env n
                    \<and> p_createdAt (pt_payload q) = date_now env (Suc n)))))
   \<and> (llm_facts env input = Some facts
        \<and> embedFacts env facts Map.empty w = (Inr fe, w1)
        \<and> findSimilarMemories env facts (userId ctx) w1 = (Inr olds, w2)
        \<and> llm_actions env (formattedMemories olds) facts = Some acts
        \<and> i < length acts \<and> a_type (acts ! i) = ADD
        \<and> applyMemoryActions env (take i acts) fe ctx w2 = (Inr (), wa)
        \<and> applyMemoryAction env (acts ! i) fe ctx wa = (Inr (), wa')
      \<longrightarrow> points wa' = qdrant_upsert
             \<lparr> pt_id = random_uuid env (uuids_drawn wa),
               pt_vector = (case fe (a_text (acts ! i)) of Some v \<Rightarrow> v
                            | None \<Rightarrow> embed_model env (a_text (acts ! i))),
               pt_payload = \<lparr> p_content = a_text (acts ! i),
                               p_metadata = \<lparr> userId = userId ctx,
                                               timestamp = date_now env (clock_reads wa) \<rparr>,
                               p_createdAt = date_now env (Suc (clock_reads wa)),
                               p_updatedAt = date_now env (Suc (clock_reads wa)),
                               p_vector = None \<rparr> \<rparr> (points wa)
          \<and> add env input ctx w = applyMemoryActions env (drop (Suc i) acts) fe ctx wa')
   \<and> (getMemoriesByDateRange env uid s e k ws = (Inr ms, ws') \<longrightarrow>
        ms = map toMemory (take (case k of None \<Rightarrow> 50 | Some l \<Rightarrow> l)
               (filter (\<lambda>q. userId (p_metadata (pt_payload q)) = uid
                             \<and> s \<le> timestamp (p_metadata (pt_payload q))
                             \<and> timestamp (p_metadata (pt_payload q)) \<le> e) (points ws)))
        \<and> (\<forall>m\<in>set ms. userId (metadata m) = uid
                       \<and> s \<le> timestamp (metadata m) \<and> timestamp (metadata m) \<le> e)
        \<and> (length (filter (\<lambda>q. userId (p_metadata (pt_payload q)) = uid
                             \<and> s \<le> timestamp (p_metadata (pt_payload q))
                             \<and> timestamp (p_metadata (pt_payload q)) \<le> e) (points ws))
              \<le> (case k of None \<Rightarrow> 50 | Some l \<Rightarrow> l)
            \<longrightarrow> set ms = toMemory ` {q \<in> set (points ws).
                               userId (p_metadata (pt_payload q)) = uid
                             \<and> s \<le> timestamp (p_metadata (pt_payload q))
                             \<and> timestamp (p_metadata (pt_payload q)) \<le> e}))"
proof -
  have 1: "add env input (ctx\<lparr>timestamp := t\<rparr>) w = add env input ctx w"
    by (rule add_ignores_timestamp)
  have 2: "\<forall>q\<in>set (points w').
            (\<exists>q0\<in>set (points w). pt_id q0 = pt_id q
                \<and> p_metadata (pt_payload q0) = p_metadata (pt_payload q)
                \<and> p_createdAt (pt_payload q0) = p_createdAt (pt_payload q))
          \<or> (userId (p_metadata (pt_payload q)) = userId ctx
              \<and> (\<exists>n. clock_reads w \<le> n \<and> Suc n < clock_reads w'
                    \<and> timestamp (p_metadata (pt_payload q)) = date_now env n
                    \<and> p_createdAt (pt_payload q) = date_now env (Suc n)))"
    if "add env input ctx w = (r, w')"
    using that by (rule add_stamps)
  have 3: "points wa' = qdrant_upsert
             \<lparr> pt_id = random_uuid env (uuids_drawn wa),
               pt_vector = (case fe (a_text (acts ! i)) of Some v \<Rightarrow> v
                            | None \<Rightarrow> embed_model env (a_text (acts ! i))),
               pt_payload = \<lparr> p_content = a_text (acts ! i),
                               p_metadata = \<lparr> userId = userId ctx,
                                               timestamp = date_now env (clock_reads wa) \<rparr>,
                               p_createdAt = date_now env (Suc (clock_reads wa)),
                               p_updatedAt = date_now env (Suc (clock_reads wa)),
                               p_vector = None \<rparr> \<rparr> (points wa)
          \<and> add env input ctx w = applyMemoryActions env (drop (Suc i) acts) fe ctx wa'"
    if h: "llm_facts env input = Some facts
        \<and> embedFacts env facts Map.empty w = (Inr fe, w1)
        \<and> findSimilarMemories env facts (userId ctx) w1 = (Inr olds, w2)
        \<and> llm_actions env (formattedMemories olds) facts = Some acts
        \<and> i < length acts \<and> a_type (acts ! i) = ADD
        \<and> applyMemoryActions env (take i acts) fe ctx w2 = (Inr (), wa)
        \<and> applyMemoryAction env (acts ! i) fe ctx wa = (Inr (), wa')"
  proof -
    from h have "add env input ctx w
        = (case applyMemoryAction env (acts ! i) fe ctx wa of
             (Inl e, w') \<Rightarrow> (Inl e, w')
           | (Inr _, w') \<Rightarrow> applyMemoryActions env (drop (Suc i) acts) fe ctx w')"
      using add_at_action [of env input facts w fe w1 ctx olds w2 acts i wa] by blast
    with h have "add env input ctx w = applyMemoryActions env (drop (Suc i) acts) fe ctx wa'"
      by simp
    moreover from h applyMemoryAction_ADD [of "acts ! i" env fe ctx wa wa']
    have "points wa' = qdrant_upsert
             \<lparr> pt_id = random_uuid env (uuids_drawn wa),
               pt_vector = (case fe (a_text (acts ! i)) of Some v \<Rightarrow> v
                            | None \<Rightarrow> embed_model env (a_text (acts ! i))),
               pt_payload = \<lparr> p_content = a_text (acts ! i),
                               p_metadata = \<lparr> userId = userId ctx,
                                               timestamp = date_now env (clock_reads wa) \<rparr>,
                               p_createdAt = date_now env (Suc (clock_reads wa)),
                               p_updatedAt = date_now env (Suc (clock_reads wa)),
                               p_vector = None \<rparr> \<rparr> (points wa)"
      by blast
    ultimately show ?thesis by simp
  qed
  let ?P = "\<lambda>q. userId (p_metadata (pt_payload q)) = uid
                 \<and> s \<le> timestamp (p_metadata (pt_payload q))
                 \<and> timestamp (p_metadata (pt_payload q)) \<le> e"
  let ?k = "case k of None \<Rightarrow> 50 | Some l \<Rightarrow> l"
  have 4: "ms = map toMemory (take ?k (filter ?P (points ws)))
        \<and> (\<forall>m\<in>set ms. userId (metadata m) = uid
                       \<and> s \<le> timestamp (metadata m) \<and> timestamp (metadata m) \<le> e)
        \<and> (length (filter ?P (points ws)) \<le> ?k
            \<longrightarrow> set ms = toMemory ` {q \<in> set (points ws). ?P q})"
    if g: "getMemoriesByDateRange env uid s e k ws = (Inr ms, ws')"
  proof -
    from getMemoriesByDateRange_exact [OF g]
    have ms: "ms = map toMemory (take ?k (filter ?P (points ws)))" .
    have "\<forall>m\<in>set ms. userId (metadata m) = uid
                       \<and> s \<le> timestamp (metadata m) \<and> timestamp (metadata m) \<le> e"
    proof
      fix m assume "m \<in> set ms"
      with ms obtain q where "q \<in> set (take ?k (filter ?P (points ws)))" "m = toMemory q"
        by auto
      then have "?P q" "m = toMemory q" by (auto dest: in_set_takeD)
      then show "userId (metadata m) = uid
                       \<and> s \<le> timestamp (metadata m) \<and> timestamp (metadata m) \<le> e"
        by (simp add: toMemory_def)
    qed
    moreover have "set ms = toMemory ` {q \<in> set (points ws). ?P q}"
      if "length (filter ?P (points ws)) \<le> ?k"
      using that ms by auto
    ultimately show ?thesis using ms by blast
  qed
  from 1 2 3 4 show ?thesis by blast
qed

theorem ADD_timestamp_is_apply_time_witness:
  "add env0 ''likes tea'' (alice\<lparr>timestamp := 99\<rparr>) world0 = add env0 ''likes tea'' alice world0
   \<and> timestamp alice = 7
   \<and> fst (add env0 ''likes tea'' alice world0) = Inr ()
   \<and> points (snd (add env0 ''likes tea'' alice world0))
       = [\<lparr> pt_id = ''m'', pt_vector = [1, 0],
            pt_payload = \<lparr> p_content = ''likes tea'',
                            p_metadata = \<lparr> userId = ''alice'', timestamp = 1000 \<rparr>,
                            p_createdAt = 1001, p_updatedAt = 1001, p_vector = None \<rparr> \<rparr>]
   \<and> fst (getMemoriesByDateRange env0 ''alice'' 1000 1000 None
            (snd (add env0 ''likes tea'' alice world0)))
       = Inr [\<lparr> memory_id = ''m'', content = ''likes tea'',
                metadata = \<lparr> userId = ''alice'', timestamp = 1000 \<rparr>,
                vector = None, createdAt = 1001, updatedAt = 1001 \<rparr>]
   \<and> fst (getMemoriesByDateRange env0 ''alice'' 7 7 None
            (snd (add env0 ''likes tea'' alice world0))) = Inr []"
proof -
  let ?r = "add env0 ''likes tea'' alice world0"
  let ?fe = "[''likes tea'' \<mapsto> [1::real, 0]]"
  let ?w1 = "world0\<lparr> embed_log := [''likes tea''] \<rparr>"
  let ?w2 = "world0\<lparr> embed_log := [''likes tea'', ''likes tea''],
                       qdrant_log := [Search ''alice'' [1, 0] 5 (5 / 10)] \<rparr>"
  let ?acts = "[action ADD None ''likes tea'']"
  let ?wa' = "snd (applyMemoryAction env0 (?acts ! 0) ?fe alice ?w2)"
  let ?p = "\<lparr> pt_id = ''m'', pt_vector = [1::real, 0],
            pt_payload = \<lparr> p_content = ''likes tea'',
                            p_metadata = \<lparr> userId = ''alice'', timestamp = 1000 \<rparr>,
                            p_createdAt = 1001, p_updatedAt = 1001, p_vector = None \<rparr> \<rparr>"
  let ?g = "\<lambda>s e. getMemoriesByDateRange env0 ''alice'' s e None (snd ?r)"
  have h0: "?r = (fst ?r, snd ?r)" by simp
  have h1: "llm_facts env0 ''likes tea'' = Some [''likes tea'']"
    by (simp add: env0_def)
  have h2: "embedFacts env0 [''likes tea''] Map.empty world0 = (Inr ?fe, ?w1)"
    by (simp add: storage_defs example_defs)
  have h3: "findSimilarMemories env0 [''likes tea''] (userId alice) ?w1 = (Inr [], ?w2)"
    by (simp add: memory_defs storage_defs example_defs)
  have h4: "llm_actions env0 (formattedMemories []) [''likes tea''] = Some ?acts"
    by (simp add: env0_def)
  have h5: "0 < length ?acts \<and> a_type (?acts ! 0) = ADD"
    by (simp add: action_def)
  have h6: "applyMemoryActions env0 (take 0 ?acts) ?fe alice ?w2 = (Inr (), ?w2)"
    by simp
  have h7: "applyMemoryAction env0 (?acts ! 0) ?fe alice ?w2 = (Inr (), ?wa')"
    by (simp add: memory_defs storage_defs example_defs)
  have ok: "?g s e = (Inr (projr (fst (?g s e))), snd (?g s e))" for s e
    by (simp add: getMemoriesByDateRange_def request_ok_def env0_def Let_def)
  note inst = ADD_timestamp_is_apply_time [where env = env0 and input = "''likes tea''"
      and ctx = alice and t = 99 and w = world0 and r = "fst ?r" and w' = "snd ?r"
      and facts = "[''likes tea'']" and fe = ?fe and ?w1.0 = ?w1 and olds = "[]"
      and ?w2.0 = ?w2 and acts = ?acts and i = 0 and wa = ?w2 and wa' = ?wa'
      and uid = "''alice''" and k = None and ws = "snd ?r"]
  from inst [of 0 0] have a: "add env0 ''likes tea'' (alice\<lparr>timestamp := 99\<rparr>) world0 = ?r"
    by blast
  from inst [of 0 0] h0
  have b: "\<forall>q\<in>set (points (snd ?r)).
            (\<exists>q0\<in>set (points world0). pt_id q0 = pt_id q
                \<and> p_metadata (pt_payload q0) = p_metadata (pt_payload q)
                \<and> p_createdAt (pt_payload q0) = p_createdAt (pt_payload q))
          \<or> (userId (p_metadata (pt_payload q)) = userId alice
              \<and> (\<exists>n. clock_reads world0 \<le> n \<and> Suc n < clock_reads (snd ?r)
                    \<and> timestamp (p_metadata (pt_payload q)) = date_now env0 n
                    \<and> p_createdAt (pt_payload q) = date_now env0 (Suc n)))"
    by blast
  from inst [of 0 0] h1 h2 h3 h4 h5 h6 h7
  have c: "points ?wa' = qdrant_upsert
             \<lparr> pt_id = random_uuid env0 (uuids_drawn ?w2),
               pt_vector = (case ?fe (a_text (?acts ! 0)) of Some v \<Rightarrow> v
                            | None \<Rightarrow> embed_model env0 (a_text (?acts ! 0))),
               pt_payload = \<lparr> p_content = a_text (?acts ! 0),
                               p_metadata = \<lparr> userId = userId alice,
                                               timestamp = date_now env0 (clock_reads ?w2) \<rparr>,
                               p_createdAt = date_now env0 (Suc (clock_reads ?w2)),
                               p_updatedAt = date_now env0 (Suc (clock_reads ?w2)),
                               p_vector = None \<rparr> \<rparr> (points ?w2)
          \<and> ?r = applyMemoryActions env0 (drop (Suc 0) ?acts) ?fe alice ?wa'"
    by blast
  then have r: "?r = (Inr (), ?wa')" by simp
  from c have p: "points ?wa' = [?p]"
    by (simp add: example_defs qdrant_upsert_def)
  from inst [where s = 1000 and e = 1000 and ms = "projr (fst (?g 1000 1000))"
      and ws' = "snd (?g 1000 1000)"] ok [of 1000 1000]
  have "projr (fst (?g 1000 1000)) = map toMemory (take 50
          (filter (\<lambda>q. userId (p_metadata (pt_payload q)) = ''alice''
                        \<and> 1000 \<le> timestamp (p_metadata (pt_payload q))
                        \<and> timestamp (p_metadata (pt_payload q)) \<le> 1000) (points (snd ?r))))"
    by simp
  with r p have g1: "projr (fst (?g 1000 1000)) = [toMemory ?p]" by simp
  from inst [where s = 7 and e = 7 and ms = "projr (fst (?g 7 7))"
      and ws' = "snd (?g 7 7)"] ok [of 7 7]
  have "projr (fst (?g 7 7)) = map toMemory (take 50
          (filter (\<lambda>q. userId (p_metadata (pt_payload q)) = ''alice''
                        \<and> 7 \<le> timestamp (p_metadata (pt_payload q))
                        \<and> timestamp (p_metadata (pt_payload q)) \<le> 7) (points (snd ?r))))"
    by simp
  with r p have g2: "projr (fst (?g 7 7)) = []" by simp
  from ok [of 1000 1000] g1 have f1: "fst (?g 1000 1000) = Inr [toMemory ?p]"
    by (metis fst_conv)
  from ok [of 7 7] g2 have f2: "fst (?g 7 7) = Inr []"
    by (metis fst_conv)
  from a r p f1 f2 show ?thesis
    by (simp add: toMemory_def alice_def)
qed

end
